theory Spec2Isabelle
  imports
    Main
    "HOL-Library.Multiset"
    "HOL-Library.Option_ord"
    "HOL-Library.Char_ord"
    "HOL-Library.List_Lexorder"
begin

section \<open>Retail management backend (rms\_backend.py)\<close>

text \<open>
  The development embeds the service logic of \<^verbatim>\<open>rms_backend.py\<close>: the sale transaction
  (\<^verbatim>\<open>create_sale\<close>, \<^verbatim>\<open>create_new_sale\<close>), the product endpoints and the two reports.

  The SQLAlchemy session is modelled by explicit state passing. A value of type \<open>DB\<close>
  holds the four tables the modelled operations touch, each as the list of its rows,
  and the AUTO\_INCREMENT counters. An endpoint takes the state and returns its
  response together with the state it leaves: the new state after \<^verbatim>\<open>db.commit()\<close>, the
  old one after \<^verbatim>\<open>db.rollback()\<close> or when the endpoint writes nothing (the counters
  included: a gap the server may leave in the keys is not modelled). Exceptions are
  values of a sum type. Python's \<^verbatim>\<open>int\<close> is \<open>int\<close>; a nullable column is an \<open>option\<close>.

  The store is the MySQL server of \<^verbatim>\<open>DATABASE_URL\<close>, in its default strict mode. When a
  row is written it checks what the models declare for the columns written:
  \<^verbatim>\<open>nullable=False\<close>, \<^verbatim>\<open>unique=True\<close>, \<^verbatim>\<open>ForeignKey\<close>, the signed 32-bit range of
  \<^verbatim>\<open>Integer\<close> and the length of \<^verbatim>\<open>String(n)\<close>. A row that fails a check raises
  IntegrityError or DataError, which the handlers answer 500 after a rollback. The
  customers table is outside the model: the \<^verbatim>\<open>customer_id\<close> of a sale is stored as it
  is given and its reference is not checked.
\<close>

subsection \<open>Values\<close>

text \<open>
  A \<^verbatim>\<open>date\<close> is its day number, a naive \<^verbatim>\<open>datetime\<close> the number of microseconds since
  the start of day 0; the order of \<^verbatim>\<open>datetime\<close> values is the order of these numbers.
  \<^verbatim>\<open>datetime.now()\<close> is an argument of every operation that stores a timestamp.
\<close>

type_synonym date = int
type_synonym datetime = int

definition time_min :: int where
  "time_min = 0"

definition time_max :: int where
  "time_max = 86399999999"

definition datetime_combine :: "date \<Rightarrow> int \<Rightarrow> datetime" where
  "datetime_combine d t = d * 86400000000 + t"

text \<open>\<^verbatim>\<open>datetime.date()\<close>: the day a timestamp falls on.\<close>

definition datetime_date :: "datetime \<Rightarrow> date" where
  "datetime_date t = t div 86400000000"

subsection \<open>SQLAlchemy models\<close>

record Supplier =
  id :: int
  name :: string
  contact_name :: "string option"
  phone :: "string option"
  email :: "string option"
  address :: "string option"
  created_at :: datetime

record Product =
  id :: int
  name :: string
  sku :: string
  unit_price_cents :: int
  quantity_available :: "int option"
  reorder_level :: "int option"
  supplier_id :: "int option"
  created_at :: datetime
  updated_at :: datetime

record Sale =
  id :: int
  customer_id :: "int option"
  subtotal_cents :: int
  tax_cents :: int
  total_cents :: int
  created_at :: datetime

record SaleItem =
  id :: int
  sale_id :: int
  product_id :: int
  unit_price_cents :: int
  quantity :: int
  line_total_cents :: int

record DB =
  suppliers :: "Supplier list"
  products :: "Product list"
  sales :: "Sale list"
  sale_items :: "SaleItem list"
  next_supplier_id :: int
  next_product_id :: int
  next_sale_id :: int
  next_sale_item_id :: int

subsection \<open>Pydantic schemas\<close>

record SaleItemBase =
  product_id :: int
  quantity :: int

record SaleCreate =
  customer_id :: "int option"
  items :: "SaleItemBase list"

text \<open>
  The dictionaries of \<^verbatim>\<open>line_items_data\<close>: the keyword arguments of a \<^verbatim>\<open>SaleItem\<close>
  without \<^verbatim>\<open>sale_id\<close>.
\<close>

record LineItemData =
  product_id :: int
  unit_price_cents :: int
  quantity :: int
  line_total_cents :: int

subsection \<open>Exceptions\<close>

text \<open>
  \<open>detail\<close> is the message of an \<^verbatim>\<open>HTTPException\<close>, with the values its f-string
  prints as arguments. \<open>InsufficientStock n s r a\<close> is
  \<^verbatim>\<open>Insufficient stock for {n} (SKU: {s}). Requested: {r}, Available: {a}\<close>.
  The \<open>Error...\<close> details are those of the \<^verbatim>\<open>except Exception\<close> handlers, which
  answer 500.
\<close>

datatype py_error = TypeError | OverflowError | IntegrityError | DataError | ProgrammingError

datatype detail =
    SaleMustContainItem
  | QuantityMustBePositive int
  | ProductNotFoundId int
  | InsufficientStock string string int int
  | ProductNotFound
  | SkuAlreadyExists
  | CannotDeleteProduct
  | UnexpectedError py_error
  | ErrorCreatingProduct py_error
  | ErrorFetchingProducts py_error
  | ErrorUpdatingProduct py_error
  | ErrorDeletingProduct py_error
  | ErrorCreatingSupplier py_error

datatype exn = HTTPException nat detail | Raise py_error

subsection \<open>Column types\<close>

text \<open>
  \<^verbatim>\<open>Integer\<close> is the server's INT, a signed 32-bit number; \<^verbatim>\<open>String(n)\<close> is VARCHAR(n), at
  most \<open>n\<close> characters. NULL fits every nullable column.
\<close>

definition in_Integer :: "int \<Rightarrow> bool" where
  "in_Integer v = (- 2147483648 \<le> v \<and> v \<le> 2147483647)"

definition in_String :: "nat \<Rightarrow> string \<Rightarrow> bool" where
  "in_String n v = (length v \<le> n)"

definition nullable :: "('a \<Rightarrow> bool) \<Rightarrow> 'a option \<Rightarrow> bool" where
  "nullable fits v = (case v of None \<Rightarrow> True | Some x \<Rightarrow> fits x)"

text \<open>The reference of a product to its supplier: NULL, or the key of a supplier.\<close>

definition supplier_exists :: "DB \<Rightarrow> int option \<Rightarrow> bool" where
  "supplier_exists db v =
     (case v of None \<Rightarrow> True | Some i \<Rightarrow> i \<in> set (map Supplier.id (suppliers db)))"

subsection \<open>The tax computation \<^verbatim>\<open>int(subtotal_cents * TAX_RATE)\<close>\<close>

text \<open>
  \<^verbatim>\<open>TAX_RATE = 0.08\<close> is a binary64 float: \<open>5764607523034235 / 2 ^ 56\<close>
  (\<^verbatim>\<open>0x1.47ae147ae147bp-4\<close>). The product of an \<^verbatim>\<open>int\<close> and a float converts the
  integer to binary64 (rounding to 53 significant bits, ties to even; OverflowError
  when the result has more than 1024 bits, that is from \<open>2 ^ 1024\<close> on), multiplies exactly and rounds the product the same way. \<^verbatim>\<open>int\<close>
  truncates towards zero. Magnitudes are kept as natural numbers in units of
  \<open>2 ^ - 56\<close>; rounding to 53 significant bits commutes with that scaling, and no
  product here is subnormal or overflows.
\<close>

fun bit_length :: "nat \<Rightarrow> nat" where
  "bit_length n = (if n = 0 then 0 else Suc (bit_length (n div 2)))"

declare bit_length.simps [simp del]

definition round_half_even :: "nat \<Rightarrow> nat \<Rightarrow> nat" where
  "round_half_even m s =
     (let q = m div 2 ^ s; r = m mod 2 ^ s
      in (if 2 ^ s < 2 * r \<or> (2 * r = 2 ^ s \<and> odd q) then q + 1 else q) * 2 ^ s)"

definition round_binary64 :: "nat \<Rightarrow> nat" where
  "round_binary64 m =
     (if bit_length m \<le> 53 then m else round_half_even m (bit_length m - 53))"

definition TAX_RATE :: nat where
  "TAX_RATE = 5764607523034235"

definition int_times_TAX_RATE :: "int \<Rightarrow> py_error + int" where
  "int_times_TAX_RATE n =
     (let f = round_binary64 (nat \<bar>n\<bar>)
      in if 1024 < bit_length f then Inl OverflowError
         else Inr (sgn n * int (round_binary64 (f * TAX_RATE) div 2 ^ 56)))"

subsection \<open>Core service logic: \<^verbatim>\<open>create_sale\<close>\<close>

text \<open>
  \<^verbatim>\<open>db.query(Product).filter(Product.id == i).first()\<close>: the first row with that key.
\<close>

definition get_product_row :: "DB \<Rightarrow> int \<Rightarrow> Product option" where
  "get_product_row db i = find (\<lambda>p. Product.id p = i) (products db)"

text \<open>
  The validation loop over \<^verbatim>\<open>sale_data.items\<close>, with its three accumulators. The
  session holds one object per row, so an entry of \<^verbatim>\<open>products_to_update\<close> is the key
  of the row with the quantity sold. Comparing a NULL \<^verbatim>\<open>quantity_available\<close> with an
  \<^verbatim>\<open>int\<close> raises TypeError.
\<close>

fun sale_loop ::
  "DB \<Rightarrow> SaleItemBase list \<Rightarrow> (int \<times> int) list \<Rightarrow> LineItemData list \<Rightarrow> int
    \<Rightarrow> exn + ((int \<times> int) list \<times> LineItemData list \<times> int)" where
  "sale_loop db [] products_to_update line_items_data subtotal =
     Inr (products_to_update, line_items_data, subtotal)"
| "sale_loop db (item # rest) products_to_update line_items_data subtotal =
     (if SaleItemBase.quantity item \<le> 0
      then Inl (HTTPException 400 (QuantityMustBePositive (SaleItemBase.product_id item)))
      else
        (case get_product_row db (SaleItemBase.product_id item) of
          None \<Rightarrow> Inl (HTTPException 404 (ProductNotFoundId (SaleItemBase.product_id item)))
        | Some product \<Rightarrow>
            (case Product.quantity_available product of
              None \<Rightarrow> Inl (Raise TypeError)
            | Some available \<Rightarrow>
                if available < SaleItemBase.quantity item
                then Inl (HTTPException 400
                       (InsufficientStock (Product.name product) (Product.sku product)
                          (SaleItemBase.quantity item) available))
                else
                  (let line_total = Product.unit_price_cents product * SaleItemBase.quantity item
                   in sale_loop db rest
                        (products_to_update @ [(Product.id product, SaleItemBase.quantity item)])
                        (line_items_data @
                          [\<lparr>LineItemData.product_id = Product.id product,
                            LineItemData.unit_price_cents = Product.unit_price_cents product,
                            LineItemData.quantity = SaleItemBase.quantity item,
                            LineItemData.line_total_cents = line_total\<rparr>])
                        (subtotal + line_total)))))"

text \<open>
  \<^verbatim>\<open>db.add(SaleItem(sale_id=new_sale.id, **item_data))\<close>; the key comes from the counter
  when the row is flushed.
\<close>

definition add_sale_item :: "int \<Rightarrow> DB \<Rightarrow> LineItemData \<Rightarrow> DB" where
  "add_sale_item sid db item_data =
     db\<lparr>sale_items := sale_items db @
          [\<lparr>SaleItem.id = next_sale_item_id db,
            SaleItem.sale_id = sid,
            SaleItem.product_id = LineItemData.product_id item_data,
            SaleItem.unit_price_cents = LineItemData.unit_price_cents item_data,
            SaleItem.quantity = LineItemData.quantity item_data,
            SaleItem.line_total_cents = LineItemData.line_total_cents item_data\<rparr>],
        next_sale_item_id := next_sale_item_id db + 1\<rparr>"

text \<open>
  \<^verbatim>\<open>product.quantity_available -= quantity_sold\<close> on the session's object for the row:
  each entry of \<^verbatim>\<open>products_to_update\<close> subtracts from the value the entries before it
  left. The attribute is an \<^verbatim>\<open>int\<close> here, the loop above has compared it. The changed
  row gets \<^verbatim>\<open>updated_at\<close> from its \<^verbatim>\<open>onupdate\<close> hook.
\<close>

definition decrement_stock :: "datetime \<Rightarrow> DB \<Rightarrow> int \<times> int \<Rightarrow> DB" where
  "decrement_stock now db u =
     db\<lparr>products :=
          map (\<lambda>p. if Product.id p = fst u
                 then p\<lparr>Product.quantity_available :=
                          map_option (\<lambda>a. a - snd u) (Product.quantity_available p),
                        Product.updated_at := now\<rparr>
                 else p)
            (products db)\<rparr>"

text \<open>
  \<^verbatim>\<open>db.flush()\<close> inserts the sale: the three amounts have to fit their \<^verbatim>\<open>Integer\<close>
  columns, or the statement raises DataError and nothing further is added.
\<close>

definition create_sale :: "datetime \<Rightarrow> DB \<Rightarrow> SaleCreate \<Rightarrow> exn + (Sale \<times> DB)" where
  "create_sale now db sale_data =
     (if SaleCreate.items sale_data = [] then Inl (HTTPException 400 SaleMustContainItem)
      else
        (case sale_loop db (SaleCreate.items sale_data) [] [] 0 of
          Inl e \<Rightarrow> Inl e
        | Inr (products_to_update, line_items_data, subtotal) \<Rightarrow>
            (case int_times_TAX_RATE subtotal of
              Inl e \<Rightarrow> Inl (Raise e)
            | Inr tax \<Rightarrow>
                (let new_sale =
                       \<lparr>Sale.id = next_sale_id db,
                        Sale.customer_id = SaleCreate.customer_id sale_data,
                        Sale.subtotal_cents = subtotal,
                        Sale.tax_cents = tax,
                        Sale.total_cents = subtotal + tax,
                        Sale.created_at = now\<rparr>;
                     db1 = db\<lparr>sales := sales db @ [new_sale],
                              next_sale_id := next_sale_id db + 1\<rparr>;
                     db2 = foldl (add_sale_item (Sale.id new_sale)) db1 line_items_data;
                     db3 = foldl (decrement_stock now) db2 products_to_update
                 in if in_Integer subtotal \<and> in_Integer tax \<and> in_Integer (subtotal + tax)
                    then Inr (new_sale, db3)
                    else Inl (Raise DataError)))))"

text \<open>
  \<^verbatim>\<open>db.commit()\<close> after \<^verbatim>\<open>create_sale\<close> inserts the sale items the call added (the rows
  after those of the state before) and updates the products in the session, the rows
  the lookups of the items' products return. Their \<^verbatim>\<open>Integer\<close> columns have to fit.
\<close>

definition commit_sale_error :: "DB \<Rightarrow> SaleCreate \<Rightarrow> DB \<Rightarrow> py_error option" where
  "commit_sale_error db sale_data db' =
     (if list_all (\<lambda>i. in_Integer (SaleItem.unit_price_cents i) \<and>
                       in_Integer (SaleItem.quantity i) \<and>
                       in_Integer (SaleItem.line_total_cents i))
           (drop (length (sale_items db)) (sale_items db')) \<and>
         list_all (\<lambda>item. case get_product_row db' (SaleItemBase.product_id item) of
                            None \<Rightarrow> True
                          | Some p \<Rightarrow> nullable in_Integer (Product.quantity_available p))
           (SaleCreate.items sale_data)
      then None else Some DataError)"

text \<open>
  \<^verbatim>\<open>POST /api/sales\<close>: commit on success, roll back on any exception; an exception
  that is not an \<^verbatim>\<open>HTTPException\<close> is answered 500.
\<close>

definition create_new_sale :: "datetime \<Rightarrow> SaleCreate \<Rightarrow> DB \<Rightarrow> (exn + Sale) \<times> DB" where
  "create_new_sale now sale_data db =
     (case create_sale now db sale_data of
        Inr (new_sale, db') \<Rightarrow>
          (case commit_sale_error db sale_data db' of
             None \<Rightarrow> (Inr new_sale, db')
           | Some e \<Rightarrow> (Inl (HTTPException 500 (UnexpectedError e)), db))
      | Inl (HTTPException code d) \<Rightarrow> (Inl (HTTPException code d), db)
      | Inl (Raise e) \<Rightarrow> (Inl (HTTPException 500 (UnexpectedError e)), db))"

subsection \<open>Product endpoints\<close>

text \<open>
  The store compares and orders strings by the collation of the column, which the
  source does not fix: \<open>coll\<close> maps a string to its collation key, and two strings
  are equal for the store when their keys are.
\<close>

record ProductCreate =
  name :: string
  sku :: string
  unit_price_cents :: int
  quantity_available :: int
  reorder_level :: "int option"
  supplier_id :: "int option"

text \<open>The checks of the INSERT of a product.\<close>

definition product_insert_error :: "DB \<Rightarrow> Product \<Rightarrow> py_error option" where
  "product_insert_error db p =
     (if \<not> (in_String 100 (Product.name p) \<and> in_String 100 (Product.sku p) \<and>
             in_Integer (Product.unit_price_cents p) \<and>
             nullable in_Integer (Product.quantity_available p) \<and>
             nullable in_Integer (Product.reorder_level p) \<and>
             nullable in_Integer (Product.supplier_id p))
      then Some DataError
      else if \<not> supplier_exists db (Product.supplier_id p) then Some IntegrityError
      else None)"

text \<open>
  \<^verbatim>\<open>POST /api/products\<close>. The INSERT leaves out an attribute that is \<^verbatim>\<open>None\<close>, so
  a \<^verbatim>\<open>reorder_level\<close> of \<^verbatim>\<open>None\<close> gets the default of its column, 10.
\<close>

definition create_product ::
  "(string \<Rightarrow> 'k) \<Rightarrow> datetime \<Rightarrow> ProductCreate \<Rightarrow> DB \<Rightarrow> (exn + Product) \<times> DB" where
  "create_product coll now product db =
     (case find (\<lambda>p. coll (Product.sku p) = coll (ProductCreate.sku product)) (products db) of
        Some db_product \<Rightarrow> (Inl (HTTPException 400 SkuAlreadyExists), db)
      | None \<Rightarrow>
          (let new_product =
                 \<lparr>Product.id = next_product_id db,
                  Product.name = ProductCreate.name product,
                  Product.sku = ProductCreate.sku product,
                  Product.unit_price_cents = ProductCreate.unit_price_cents product,
                  Product.quantity_available = Some (ProductCreate.quantity_available product),
                  Product.reorder_level =
                    (case ProductCreate.reorder_level product of
                       None \<Rightarrow> Some 10 | Some r \<Rightarrow> Some r),
                  Product.supplier_id = ProductCreate.supplier_id product,
                  Product.created_at = now,
                  Product.updated_at = now\<rparr>
           in case product_insert_error db new_product of
                Some e \<Rightarrow> (Inl (HTTPException 500 (ErrorCreatingProduct e)), db)
              | None \<Rightarrow>
                  (Inr new_product,
                   db\<lparr>products := products db @ [new_product],
                      next_product_id := next_product_id db + 1\<rparr>)))"

text \<open>
  \<^verbatim>\<open>GET /api/products\<close>, with the defaults of its query parameters. The server
  rejects a negative OFFSET or LIMIT, which the handler answers 500. Rows with equal
  keys keep the order of the table.
\<close>

definition get_products ::
  "(string \<Rightarrow> 'k::linorder) \<Rightarrow> int option \<Rightarrow> int option \<Rightarrow> DB
     \<Rightarrow> (exn + Product list) \<times> DB" where
  "get_products coll skip_arg limit_arg db =
     (let skip = (case skip_arg of None \<Rightarrow> 0 | Some s \<Rightarrow> s);
          limit = (case limit_arg of None \<Rightarrow> 100 | Some l \<Rightarrow> l)
      in if skip < 0 \<or> limit < 0
         then (Inl (HTTPException 500 (ErrorFetchingProducts ProgrammingError)), db)
         else (Inr (take (nat limit) (drop (nat skip)
                      (sort_key (\<lambda>p. coll (Product.name p)) (products db)))), db))"

text \<open>
  A field of \<^verbatim>\<open>ProductUpdate\<close> is unset, or set to a value or to \<^verbatim>\<open>None\<close>;
  \<^verbatim>\<open>model_dump(exclude_unset=True)\<close> keeps the set ones, in the order of the class.
\<close>

datatype 'a field = Unset | Given "'a option"

record ProductUpdate =
  name :: "string field"
  sku :: "string field"
  unit_price_cents :: "int field"
  quantity_available :: "int field"
  reorder_level :: "int field"
  supplier_id :: "int field"

datatype assignment =
    Key_name "string option"
  | Key_sku "string option"
  | Key_unit_price_cents "int option"
  | Key_quantity_available "int option"
  | Key_reorder_level "int option"
  | Key_supplier_id "int option"

definition dump_field :: "('a option \<Rightarrow> assignment) \<Rightarrow> 'a field \<Rightarrow> assignment list" where
  "dump_field key f = (case f of Unset \<Rightarrow> [] | Given v \<Rightarrow> [key v])"

definition model_dump_exclude_unset :: "ProductUpdate \<Rightarrow> assignment list" where
  "model_dump_exclude_unset u =
     dump_field Key_name (ProductUpdate.name u) @
     dump_field Key_sku (ProductUpdate.sku u) @
     dump_field Key_unit_price_cents (ProductUpdate.unit_price_cents u) @
     dump_field Key_quantity_available (ProductUpdate.quantity_available u) @
     dump_field Key_reorder_level (ProductUpdate.reorder_level u) @
     dump_field Key_supplier_id (ProductUpdate.supplier_id u)"

text \<open>
  \<^verbatim>\<open>setattr(product, key, value)\<close>. A \<^verbatim>\<open>None\<close> for a column declared
  \<^verbatim>\<open>nullable=False\<close> stays in the object until \<^verbatim>\<open>db.commit()\<close>, where the store
  raises IntegrityError; nothing reads the object in between, so the model raises at
  the assignment.
\<close>

fun setattr :: "Product \<Rightarrow> assignment \<Rightarrow> py_error + Product" where
  "setattr p (Key_name None) = Inl IntegrityError"
| "setattr p (Key_name (Some v)) = Inr (p\<lparr>Product.name := v\<rparr>)"
| "setattr p (Key_sku None) = Inl IntegrityError"
| "setattr p (Key_sku (Some v)) = Inr (p\<lparr>Product.sku := v\<rparr>)"
| "setattr p (Key_unit_price_cents None) = Inl IntegrityError"
| "setattr p (Key_unit_price_cents (Some v)) = Inr (p\<lparr>Product.unit_price_cents := v\<rparr>)"
| "setattr p (Key_quantity_available v) = Inr (p\<lparr>Product.quantity_available := v\<rparr>)"
| "setattr p (Key_reorder_level v) = Inr (p\<lparr>Product.reorder_level := v\<rparr>)"
| "setattr p (Key_supplier_id v) = Inr (p\<lparr>Product.supplier_id := v\<rparr>)"

fun setattr_loop :: "Product \<Rightarrow> assignment list \<Rightarrow> py_error + Product" where
  "setattr_loop p [] = Inr p"
| "setattr_loop p (a # update_data) =
     (case setattr p a of Inl e \<Rightarrow> Inl e | Inr p' \<Rightarrow> setattr_loop p' update_data)"

text \<open>
  The checks of the UPDATE of a product from the row \<open>old\<close> to the attributes \<open>new\<close>.
  The statement writes the columns whose value changed, and only these are checked:
  their type first, then the unique index on \<^verbatim>\<open>sku\<close> against the other rows and the
  reference to the supplier. Which of several failures the server reports is not fixed
  by the source; every one is answered 500.
\<close>

definition product_update_error ::
  "(string \<Rightarrow> 'k) \<Rightarrow> DB \<Rightarrow> Product \<Rightarrow> Product \<Rightarrow> py_error option" where
  "product_update_error coll db old new =
     (if (Product.name new \<noteq> Product.name old \<and> \<not> in_String 100 (Product.name new)) \<or>
         (Product.sku new \<noteq> Product.sku old \<and> \<not> in_String 100 (Product.sku new)) \<or>
         (Product.unit_price_cents new \<noteq> Product.unit_price_cents old \<and>
            \<not> in_Integer (Product.unit_price_cents new)) \<or>
         (Product.quantity_available new \<noteq> Product.quantity_available old \<and>
            \<not> nullable in_Integer (Product.quantity_available new)) \<or>
         (Product.reorder_level new \<noteq> Product.reorder_level old \<and>
            \<not> nullable in_Integer (Product.reorder_level new)) \<or>
         (Product.supplier_id new \<noteq> Product.supplier_id old \<and>
            \<not> nullable in_Integer (Product.supplier_id new))
      then Some DataError
      else if Product.sku new \<noteq> Product.sku old \<and>
              list_ex (\<lambda>r. Product.id r \<noteq> Product.id old \<and>
                            coll (Product.sku r) = coll (Product.sku new)) (products db)
      then Some IntegrityError
      else if Product.supplier_id new \<noteq> Product.supplier_id old \<and>
              \<not> supplier_exists db (Product.supplier_id new)
      then Some IntegrityError
      else None)"

text \<open>
  \<^verbatim>\<open>PUT /api/products/{product_id}\<close>. The UPDATE is issued only when a column has a
  new value, and then \<^verbatim>\<open>onupdate\<close> sets \<^verbatim>\<open>updated_at\<close>.
\<close>

definition update_product ::
  "(string \<Rightarrow> 'k) \<Rightarrow> datetime \<Rightarrow> int \<Rightarrow> ProductUpdate \<Rightarrow> DB
     \<Rightarrow> (exn + Product) \<times> DB" where
  "update_product coll now product_id' product_update db =
     (case get_product_row db product_id' of
        None \<Rightarrow> (Inl (HTTPException 404 ProductNotFound), db)
      | Some product \<Rightarrow>
          (case setattr_loop product (model_dump_exclude_unset product_update) of
             Inl e \<Rightarrow> (Inl (HTTPException 500 (ErrorUpdatingProduct e)), db)
           | Inr p \<Rightarrow>
               (case product_update_error coll db product p of
                  Some e \<Rightarrow> (Inl (HTTPException 500 (ErrorUpdatingProduct e)), db)
                | None \<Rightarrow>
                    (let p' = (if p = product then p else p\<lparr>Product.updated_at := now\<rparr>)
                     in (Inr p',
                         db\<lparr>products :=
                              map (\<lambda>r. if Product.id r = product_id' then p' else r)
                                (products db)\<rparr>)))))"

text \<open>\<^verbatim>\<open>DELETE /api/products/{product_id}\<close>.\<close>

definition delete_product :: "int \<Rightarrow> DB \<Rightarrow> (exn + unit) \<times> DB" where
  "delete_product product_id' db =
     (case get_product_row db product_id' of
        None \<Rightarrow> (Inl (HTTPException 404 ProductNotFound), db)
      | Some product \<Rightarrow>
          (case find (\<lambda>i. SaleItem.product_id i = product_id') (sale_items db) of
             Some i \<Rightarrow> (Inl (HTTPException 400 CannotDeleteProduct), db)
           | None \<Rightarrow>
               (Inr (),
                db\<lparr>products := filter (\<lambda>r. Product.id r \<noteq> product_id') (products db)\<rparr>)))"

subsection \<open>Supplier endpoints\<close>

record SupplierCreate =
  name :: string
  contact_name :: "string option"
  phone :: "string option"
  email :: "string option"
  address :: "string option"

text \<open>\<^verbatim>\<open>POST /api/suppliers\<close>.\<close>

definition create_supplier ::
  "datetime \<Rightarrow> SupplierCreate \<Rightarrow> DB \<Rightarrow> (exn + Supplier) \<times> DB" where
  "create_supplier now supplier db =
     (let new_supplier =
            \<lparr>Supplier.id = next_supplier_id db,
             Supplier.name = SupplierCreate.name supplier,
             Supplier.contact_name = SupplierCreate.contact_name supplier,
             Supplier.phone = SupplierCreate.phone supplier,
             Supplier.email = SupplierCreate.email supplier,
             Supplier.address = SupplierCreate.address supplier,
             Supplier.created_at = now\<rparr>
      in if in_String 100 (Supplier.name new_supplier) \<and>
            nullable (in_String 100) (Supplier.contact_name new_supplier) \<and>
            nullable (in_String 50) (Supplier.phone new_supplier) \<and>
            nullable (in_String 100) (Supplier.email new_supplier) \<and>
            nullable (in_String 255) (Supplier.address new_supplier)
         then (Inr new_supplier,
               db\<lparr>suppliers := suppliers db @ [new_supplier],
                  next_supplier_id := next_supplier_id db + 1\<rparr>)
         else (Inl (HTTPException 500 (ErrorCreatingSupplier DataError)), db))"

subsection \<open>Report endpoints\<close>

record SalesSummary =
  from_date :: date
  to_date :: date
  total_revenue_cents :: int
  transaction_count :: int
  average_order_value_cents :: int

text \<open>
  \<^verbatim>\<open>GET /api/reports/sales-summary\<close>. \<^verbatim>\<open>func.sum\<close> is NULL over no rows,
  \<^verbatim>\<open>func.count\<close> never is; \<^verbatim>\<open>//\<close> is floor division, as \<open>div\<close> on \<open>int\<close> is.
\<close>

definition get_sales_summary :: "date \<Rightarrow> date \<Rightarrow> DB \<Rightarrow> (exn + SalesSummary) \<times> DB" where
  "get_sales_summary from_date' to_date' db =
     (let from_datetime = datetime_combine from_date' time_min;
          to_datetime = datetime_combine to_date' time_max;
          rows = filter (\<lambda>s. from_datetime \<le> Sale.created_at s \<and> Sale.created_at s \<le> to_datetime)
                   (sales db);
          summary_total_revenue_cents =
            (if rows = [] then None else Some (sum_list (map Sale.total_cents rows)));
          summary_transaction_count = Some (int (length rows));
          total_revenue = (case summary_total_revenue_cents of None \<Rightarrow> 0 | Some v \<Rightarrow> v);
          tx_count = (case summary_transaction_count of None \<Rightarrow> 0 | Some c \<Rightarrow> c);
          avg_order_value = (if tx_count > 0 then total_revenue div tx_count else 0)
      in (Inr \<lparr>from_date = from_date', to_date = to_date',
                total_revenue_cents = total_revenue,
                transaction_count = tx_count,
                average_order_value_cents = avg_order_value\<rparr>, db))"

text \<open>
  \<^verbatim>\<open>GET /api/reports/low-stock\<close>. A comparison with NULL is not true in SQL, so a row
  with a NULL operand is not selected. NULL sorts first in ascending order, as \<open>None\<close>
  does in the order on \<open>option\<close>.
\<close>

definition get_low_stock_report :: "int option \<Rightarrow> DB \<Rightarrow> (exn + Product list) \<times> DB" where
  "get_low_stock_report threshold db =
     (let query =
            (case threshold of
               Some t \<Rightarrow>
                 filter (\<lambda>p. case Product.quantity_available p of
                               None \<Rightarrow> False | Some q \<Rightarrow> q \<le> t)
                   (products db)
             | None \<Rightarrow>
                 filter (\<lambda>p. case Product.quantity_available p of
                               None \<Rightarrow> False
                             | Some q \<Rightarrow>
                                 (case Product.reorder_level p of
                                    None \<Rightarrow> False | Some r \<Rightarrow> q \<le> r))
                   (products db))
      in (Inr (sort_key Product.quantity_available query), db))"

subsection \<open>Predicates and states used in the statements\<close>

text \<open>
  An item passes the checks of the validation loop when its quantity is positive, its
  product exists and the product's stock covers the quantity.
\<close>

definition item_accepted :: "DB \<Rightarrow> SaleItemBase \<Rightarrow> bool" where
  "item_accepted db item =
     (0 < SaleItemBase.quantity item \<and>
      (case get_product_row db (SaleItemBase.product_id item) of
         None \<Rightarrow> False
       | Some product \<Rightarrow>
           (case Product.quantity_available product of
              None \<Rightarrow> False
            | Some available \<Rightarrow> SaleItemBase.quantity item \<le> available)))"

text \<open>No stored \<^verbatim>\<open>quantity_available\<close> is a negative number.\<close>

definition nonneg_stock :: "DB \<Rightarrow> bool" where
  "nonneg_stock db =
     list_all (\<lambda>p. case Product.quantity_available p of None \<Rightarrow> True | Some q \<Rightarrow> 0 \<le> q)
       (products db)"

text \<open>
  \<^verbatim>\<open>Product.id\<close> is the primary key: no two rows share it, and the counter is above
  every key in use.
\<close>

definition primary_key :: "DB \<Rightarrow> bool" where
  "primary_key db =
     (distinct (map Product.id (products db)) \<and>
      list_all (\<lambda>p. Product.id p < next_product_id db) (products db))"

text \<open>
  An entry of \<^verbatim>\<open>products_to_update\<close> is covered when every row with its key holds at
  least the quantity the entry takes.
\<close>

definition covered :: "DB \<Rightarrow> int \<times> int \<Rightarrow> bool" where
  "covered db u =
     list_all (\<lambda>p. Product.id p = fst u \<longrightarrow>
                 (case Product.quantity_available p of
                    None \<Rightarrow> False | Some a \<Rightarrow> snd u \<le> a))
       (products db)"


definition empty_db :: DB where
  "empty_db =
     \<lparr>suppliers = [], products = [], sales = [], sale_items = [],
      next_supplier_id = 1, next_product_id = 1, next_sale_id = 1,
      next_sale_item_id = 1\<rparr>"

definition no_negative_quantity :: "ProductUpdate \<Rightarrow> bool" where
  "no_negative_quantity u =
     (case ProductUpdate.quantity_available u of
        Given (Some q) \<Rightarrow> 0 \<le> q
      | _ \<Rightarrow> True)"

text \<open>
  The states the writing endpoints reach from the empty store when no request to
  create or update a product carries a negative quantity and the items of every sale
  name pairwise distinct products. The reading endpoints leave the state as it is.
\<close>

inductive reachable :: "(string \<Rightarrow> 'k) \<Rightarrow> DB \<Rightarrow> bool" for coll :: "string \<Rightarrow> 'k" where
  initial: "reachable coll empty_db"
| by_create_supplier:
    "reachable coll db \<Longrightarrow> reachable coll (snd (create_supplier now supplier db))"
| by_create_product:
    "reachable coll db \<Longrightarrow> 0 \<le> ProductCreate.quantity_available product \<Longrightarrow>
     reachable coll (snd (create_product coll now product db))"
| by_update_product:
    "reachable coll db \<Longrightarrow> no_negative_quantity product_update \<Longrightarrow>
     reachable coll (snd (update_product coll now i product_update db))"
| by_delete_product:
    "reachable coll db \<Longrightarrow> reachable coll (snd (delete_product i db))"
| by_create_new_sale:
    "reachable coll db \<Longrightarrow>
     distinct (map SaleItemBase.product_id (SaleCreate.items sale_data)) \<Longrightarrow>
     reachable coll (snd (create_new_sale now sale_data db))"

text \<open>A store with two products, for the concrete instances.\<close>

definition product_A :: Product where
  "product_A =
     \<lparr>Product.id = 1, Product.name = ''Anvil'', Product.sku = ''AN-1'',
      Product.unit_price_cents = 1000, Product.quantity_available = Some 5,
      Product.reorder_level = Some 10, Product.supplier_id = None,
      Product.created_at = 0, Product.updated_at = 0\<rparr>"

definition product_B :: Product where
  "product_B =
     \<lparr>Product.id = 2, Product.name = ''Bolt'', Product.sku = ''BO-2'',
      Product.unit_price_cents = 250, Product.quantity_available = Some 40,
      Product.reorder_level = Some 10, Product.supplier_id = None,
      Product.created_at = 0, Product.updated_at = 0\<rparr>"

definition shop :: DB where
  "shop =
     \<lparr>suppliers = [], products = [product_A, product_B], sales = [], sale_items = [],
      next_supplier_id = 1, next_product_id = 3, next_sale_id = 1,
      next_sale_item_id = 1\<rparr>"

text \<open>The two requests that create the products of \<open>shop\<close>.\<close>

definition anvil :: ProductCreate where
  "anvil =
     \<lparr>ProductCreate.name = ''Anvil'', ProductCreate.sku = ''AN-1'',
      ProductCreate.unit_price_cents = 1000, ProductCreate.quantity_available = 5,
      ProductCreate.reorder_level = Some 10, ProductCreate.supplier_id = None\<rparr>"

definition bolt :: ProductCreate where
  "bolt =
     \<lparr>ProductCreate.name = ''Bolt'', ProductCreate.sku = ''BO-2'',
      ProductCreate.unit_price_cents = 250, ProductCreate.quantity_available = 40,
      ProductCreate.reorder_level = Some 10, ProductCreate.supplier_id = None\<rparr>"

definition sale_of :: "(int \<times> int) list \<Rightarrow> SaleCreate" where
  "sale_of xs =
     \<lparr>SaleCreate.customer_id = None,
      SaleCreate.items =
        map (\<lambda>(i, q). \<lparr>SaleItemBase.product_id = i, SaleItemBase.quantity = q\<rparr>) xs\<rparr>"


text \<open>
  A store with three sales: at the first and at the last microsecond of day 10, and at
  the first microsecond of day 11.
\<close>

definition ledger :: DB where
  "ledger =
     \<lparr>suppliers = [], products = [product_B, product_A],
      sales =
        [\<lparr>Sale.id = 1, Sale.customer_id = None, Sale.subtotal_cents = 3000,
          Sale.tax_cents = 240, Sale.total_cents = 3240, Sale.created_at = 864000000000\<rparr>,
         \<lparr>Sale.id = 2, Sale.customer_id = None, Sale.subtotal_cents = 1000,
          Sale.tax_cents = 80, Sale.total_cents = 1080, Sale.created_at = 950399999999\<rparr>,
         \<lparr>Sale.id = 3, Sale.customer_id = None, Sale.subtotal_cents = 500,
          Sale.tax_cents = 40, Sale.total_cents = 540, Sale.created_at = 950400000000\<rparr>],
      sale_items =
        [\<lparr>SaleItem.id = 1, SaleItem.sale_id = 1, SaleItem.product_id = 1,
          SaleItem.unit_price_cents = 1000, SaleItem.quantity = 3,
          SaleItem.line_total_cents = 3000\<rparr>,
         \<lparr>SaleItem.id = 2, SaleItem.sale_id = 2, SaleItem.product_id = 1,
          SaleItem.unit_price_cents = 1000, SaleItem.quantity = 1,
          SaleItem.line_total_cents = 1000\<rparr>,
         \<lparr>SaleItem.id = 3, SaleItem.sale_id = 3, SaleItem.product_id = 1,
          SaleItem.unit_price_cents = 250, SaleItem.quantity = 2,
          SaleItem.line_total_cents = 500\<rparr>],
      next_supplier_id = 1, next_product_id = 3, next_sale_id = 4,
      next_sale_item_id = 4\<rparr>"

text \<open>A store whose one product is expensive and well stocked.\<close>

definition product_C :: Product where
  "product_C =
     \<lparr>Product.id = 1, Product.name = ''Crane'', Product.sku = ''CR-3'',
      Product.unit_price_cents = 2000000001, Product.quantity_available = Some 3000000,
      Product.reorder_level = Some 10, Product.supplier_id = None,
      Product.created_at = 0, Product.updated_at = 0\<rparr>"

definition shop_C :: DB where
  "shop_C =
     \<lparr>suppliers = [], products = [product_C], sales = [], sale_items = [],
      next_supplier_id = 1, next_product_id = 2, next_sale_id = 1,
      next_sale_item_id = 1\<rparr>"

section \<open>The tax computation\<close>

subsection \<open>Evaluation on numerals\<close>

lemma bit_length_0 [simp]: "bit_length 0 = 0"
  by (simp add: bit_length.simps)

lemma bit_length_Suc_0 [simp]: "bit_length (Suc 0) = Suc 0"
  by (simp add: bit_length.simps)

lemma bit_length_Bit0 [simp]: "bit_length (numeral (Num.Bit0 k)) = Suc (bit_length (numeral k))"
  by (subst bit_length.simps) simp

lemma bit_length_Bit1 [simp]: "bit_length (numeral (Num.Bit1 k)) = Suc (bit_length (numeral k))"
  by (subst bit_length.simps) simp

lemmas tax_defs =
  int_times_TAX_RATE_def round_binary64_def round_half_even_def TAX_RATE_def Let_def



subsection \<open>Rounding stays within the cent below \<open>2 ^ 52\<close>\<close>

lemma bit_length_le: "m < 2 ^ k \<Longrightarrow> bit_length m \<le> k"
proof (induction k arbitrary: m)
  case 0
  then show ?case by simp
next
  case (Suc k)
  show ?case
  proof (cases "m = 0")
    case True
    then show ?thesis by simp
  next
    case False
    from Suc.prems have "m div 2 < 2 ^ k" by simp
    then have "bit_length (m div 2) \<le> k" by (rule Suc.IH)
    with False show ?thesis by (subst bit_length.simps) simp
  qed
qed

lemma round_binary64_alt: "round_binary64 m = round_half_even m (bit_length m - 53)"
  by (simp add: round_binary64_def round_half_even_def)

lemma round_half_even_lower: "m div 2 ^ s * 2 ^ s \<le> round_half_even m s"
  by (simp add: round_half_even_def Let_def)

lemma round_half_even_upper: "2 * round_half_even m s \<le> 2 * m + 2 ^ s"
proof -
  have m: "m = m div 2 ^ s * 2 ^ s + m mod 2 ^ s"
    by (rule div_mult_mod_eq[symmetric])
  have r: "m mod 2 ^ s < 2 ^ s" by simp
  show ?thesis
  proof (cases "2 ^ s < 2 * (m mod 2 ^ s) \<or> (2 * (m mod 2 ^ s) = 2 ^ s \<and> odd (m div 2 ^ s))")
    case True
    then have "2 ^ s \<le> 2 * (m mod 2 ^ s)" by auto
    moreover from True have "round_half_even m s = m div 2 ^ s * 2 ^ s + 2 ^ s"
      by (simp add: round_half_even_def Let_def)
    ultimately show ?thesis using m by linarith
  next
    case False
    then have "round_half_even m s = m div 2 ^ s * 2 ^ s"
      by (simp add: round_half_even_def Let_def)
    then show ?thesis using m by linarith
  qed
qed

lemma multiple_le_div_mult:
  fixes x m d :: nat
  assumes "d dvd x" "x \<le> m"
  shows "x \<le> m div d * d"
proof -
  from assms(1) obtain c where c: "x = d * c" ..
  show ?thesis
  proof (cases "d = 0")
    case True
    with c show ?thesis by simp
  next
    case False
    from c assms(2) have "c \<le> m div d"
      using False by (metis div_le_mono nonzero_mult_div_cancel_left)
    then have "c * d \<le> m div d * d" by simp
    with c show ?thesis by (simp add: mult.commute)
  qed
qed

lemma TAX_RATE_25: "25 * TAX_RATE = 2 ^ 57 + 3"
  by (simp add: TAX_RATE_def)

lemma tax_small_nat:
  fixes m :: nat
  assumes m: "m < 2 ^ 52"
  shows "round_binary64 (m * TAX_RATE) div 2 ^ 56 = m * 8 div 100"
proof -
  define k where "k = 2 * m div 25"
  define j where "j = 2 * m mod 25"
  define P where "P = m * TAX_RATE"
  define s where "s = bit_length P - 53"
  define R where "R = round_half_even P s"
  have mj: "2 * m = 25 * k + j" and j: "j < 25"
    unfolding k_def j_def by presburger+
  have P25: "25 * P = m * 2 ^ 57 + 3 * m"
    using TAX_RATE_25 by (simp add: P_def algebra_simps)
  have "P < 2 ^ 105"
  proof -
    have "25 * P < 25 * 2 ^ 105" using P25 m by simp
    then show ?thesis by simp
  qed
  then have "bit_length P \<le> 105" by (rule bit_length_le)
  then have s: "s \<le> 52" by (simp add: s_def)
  then have s_le: "(2::nat) ^ s \<le> 2 ^ 52" by (intro power_increasing) simp_all
  have lowerP: "k * 2 ^ 56 \<le> P"
  proof -
    have "25 * (k * 2 ^ 56) \<le> 2 * m * 2 ^ 56" using mj by simp
    also have "\<dots> \<le> 25 * P" using P25 by simp
    finally show ?thesis by simp
  qed
  have "(2::nat) ^ s dvd 2 ^ 56" using s by (intro le_imp_power_dvd) simp
  then have "2 ^ s dvd k * 2 ^ 56" by simp
  from multiple_le_div_mult[OF this lowerP] have "k * 2 ^ 56 \<le> P div 2 ^ s * 2 ^ s" .
  also have "\<dots> \<le> R" unfolding R_def by (rule round_half_even_lower)
  finally have lower: "k * 2 ^ 56 \<le> R" .
  have "2 * R \<le> 2 * P + 2 ^ s" unfolding R_def by (rule round_half_even_upper)
  then have "2 * R \<le> 2 * P + 2 ^ 52" using s_le by linarith
  then have upper: "R < (k + 1) * 2 ^ 56"
    using P25 mj j m by simp
  from lower upper have "R div 2 ^ 56 = k"
    by (metis add.commute div_nat_eqI plus_1_eq_Suc mult.commute)
  then show ?thesis
    by (simp add: R_def s_def P_def k_def round_binary64_alt)
qed

lemma int_times_TAX_RATE_exact:
  assumes "0 \<le> n" "n < 2 ^ 52"
  shows "int_times_TAX_RATE n = Inr (n * 8 div 100)"
proof -
  define m where "m = nat n"
  have n: "n = int m" and m: "m < 2 ^ 52"
    using assms by (simp_all add: m_def nat_less_iff)
  from m have "m < 2 ^ 53" by simp
  then have b: "bit_length m \<le> 53" by (rule bit_length_le)
  then have f: "round_binary64 m = m" by (simp add: round_binary64_def)
  have "int (round_binary64 (m * TAX_RATE) div 2 ^ 56) = int m * 8 div 100"
    using tax_small_nat[OF m] by (simp add: zdiv_int)
  then show ?thesis
    using b f by (cases "m = 0") (simp_all add: int_times_TAX_RATE_def n Let_def)
qed

section \<open>The sale transaction\<close>

subsection \<open>Basic facts\<close>


lemma create_new_sale_Inr:
  "create_new_sale now sd db = (Inr sale, db') \<longleftrightarrow>
   create_sale now db sd = Inr (sale, db') \<and> commit_sale_error db sd db' = None"
  by (auto simp: create_new_sale_def split: sum.splits exn.splits prod.splits option.splits)

lemma create_sale_InrD:
  assumes "create_sale now db sd = Inr (sale, db')"
  obtains ptu lid sub tax where
    "SaleCreate.items sd \<noteq> []"
    "sale_loop db (SaleCreate.items sd) [] [] 0 = Inr (ptu, lid, sub)"
    "int_times_TAX_RATE sub = Inr tax"
    "sale = \<lparr>Sale.id = next_sale_id db, Sale.customer_id = SaleCreate.customer_id sd,
             Sale.subtotal_cents = sub, Sale.tax_cents = tax, Sale.total_cents = sub + tax,
             Sale.created_at = now\<rparr>"
    "db' = foldl (decrement_stock now)
             (foldl (add_sale_item (next_sale_id db))
                (db\<lparr>sales := sales db @ [sale], next_sale_id := next_sale_id db + 1\<rparr>) lid) ptu"
    "in_Integer sub" "in_Integer tax" "in_Integer (sub + tax)"
  using assms
  by (auto simp: create_sale_def Let_def split: if_splits sum.splits prod.splits)


lemma get_product_row_id:
  "get_product_row db a = Some p \<Longrightarrow> Product.id p = a"
  by (auto simp: get_product_row_def find_Some_iff)


lemma products_add_sale_item [simp]: "products (add_sale_item sid db x) = products db"
  by (simp add: add_sale_item_def)

lemma products_foldl_add_sale_item [simp]:
  "products (foldl (add_sale_item sid) db xs) = products db"
  by (induction xs arbitrary: db) simp_all


subsection \<open>Totals of a sale\<close>


lemmas shop_defs = shop_def product_A_def product_B_def sale_of_def

lemma get_product_row_shop_1: "get_product_row shop 1 = Some product_A"
  by (simp add: get_product_row_def shop_defs)


subsection \<open>The tax of a sale\<close>

lemma in_Integer_below_2_52: "in_Integer v \<Longrightarrow> v < 2 ^ 52"
  by (simp add: in_Integer_def)

text \<open>
  C3. When a sale is created and its subtotal is not negative, its tax is the integer
  floor of the subtotal times 8 over 100. The float product of the source rounds, but
  the subtotal of a created sale fits its \<^verbatim>\<open>Integer\<close> column, and below \<open>2 ^ 52\<close> the
  rounded product stays within the same cent.
\<close>

theorem tax_is_floor:
  assumes "create_new_sale now sale_data db = (Inr sale, db')"
    and "0 \<le> Sale.subtotal_cents sale"
  shows "Sale.tax_cents sale = Sale.subtotal_cents sale * 8 div 100"
proof -
  from assms(1) have "create_sale now db sale_data = Inr (sale, db')"
    by (simp add: create_new_sale_Inr)
  then obtain sub tax where
    "int_times_TAX_RATE sub = Inr tax" "Sale.subtotal_cents sale = sub"
    "Sale.tax_cents sale = tax" "in_Integer sub"
    by (elim create_sale_InrD) simp
  with int_times_TAX_RATE_exact[OF assms(2)] in_Integer_below_2_52 show ?thesis
    by simp
qed

lemma create_new_sale_shop:
  "create_new_sale 7 (sale_of [(1, 3)]) shop =
     (Inr \<lparr>Sale.id = 1, Sale.customer_id = None, Sale.subtotal_cents = 3000,
           Sale.tax_cents = 240, Sale.total_cents = 3240, Sale.created_at = 7\<rparr>,
      shop\<lparr>products := [product_A\<lparr>Product.quantity_available := Some 2,
                                     Product.updated_at := 7\<rparr>, product_B],
           sales := [\<lparr>Sale.id = 1, Sale.customer_id = None, Sale.subtotal_cents = 3000,
                      Sale.tax_cents = 240, Sale.total_cents = 3240, Sale.created_at = 7\<rparr>],
           sale_items := [\<lparr>SaleItem.id = 1, SaleItem.sale_id = 1, SaleItem.product_id = 1,
                           SaleItem.unit_price_cents = 1000, SaleItem.quantity = 3,
                           SaleItem.line_total_cents = 3000\<rparr>],
           next_sale_id := 2, next_sale_item_id := 2\<rparr>)"
  by (simp add: create_new_sale_def create_sale_def commit_sale_error_def
      get_product_row_def shop_defs add_sale_item_def decrement_stock_def tax_defs
      in_Integer_def nullable_def)

theorem tax_is_floor_witness:
  "create_new_sale 7 (sale_of [(1, 3)]) shop =
     (Inr \<lparr>Sale.id = 1, Sale.customer_id = None, Sale.subtotal_cents = 3000,
           Sale.tax_cents = 240, Sale.total_cents = 3240, Sale.created_at = 7\<rparr>,
      shop\<lparr>products := [product_A\<lparr>Product.quantity_available := Some 2,
                                     Product.updated_at := 7\<rparr>, product_B],
           sales := [\<lparr>Sale.id = 1, Sale.customer_id = None, Sale.subtotal_cents = 3000,
                      Sale.tax_cents = 240, Sale.total_cents = 3240, Sale.created_at = 7\<rparr>],
           sale_items := [\<lparr>SaleItem.id = 1, SaleItem.sale_id = 1, SaleItem.product_id = 1,
                           SaleItem.unit_price_cents = 1000, SaleItem.quantity = 3,
                           SaleItem.line_total_cents = 3000\<rparr>],
           next_sale_id := 2, next_sale_item_id := 2\<rparr>) \<and>
   (0::int) \<le> 3000 \<and> (240::int) = 3000 * 8 div 100"
  using tax_is_floor[OF create_new_sale_shop]
  by (simp add: create_new_sale_shop)

text \<open>
  Beyond the range of the column the float product and the floor part: the product of
  2000000001 cents and 2627112 units is taxed one cent above the floor by
  \<^verbatim>\<open>int(subtotal_cents * TAX_RATE)\<close>, and the sale is answered 500 because the subtotal
  does not fit.
\<close>

lemmas shop_C_defs = shop_C_def product_C_def sale_of_def

lemma int_times_TAX_RATE_above_floor:
  "int_times_TAX_RATE (2000000001 * 2627112) = Inr 420337920210169 \<and>
   (2000000001 * 2627112 * 8 div 100 :: int) = 420337920210168"
  by (simp add: tax_defs)

lemma create_new_sale_shop_C:
  "create_new_sale 7 (sale_of [(1, 2627112)]) shop_C =
     (Inl (HTTPException 500 (UnexpectedError DataError)), shop_C)"
  by (simp add: create_new_sale_def create_sale_def get_product_row_def shop_C_defs
      tax_defs in_Integer_def)

subsection \<open>Rejected sales\<close>

lemma sale_loop_accepted_prefix:
  "list_all (item_accepted db) pre \<Longrightarrow>
   \<exists>ptu' lid' sub'. sale_loop db (pre @ rest) ptu lid sub = sale_loop db rest ptu' lid' sub'"
proof (induction pre arbitrary: ptu lid sub)
  case Nil
  show ?case by auto
next
  case (Cons item pre)
  from Cons.prems have "item_accepted db item" and pre: "list_all (item_accepted db) pre"
    by simp_all
  then obtain product available where
    "0 < SaleItemBase.quantity item"
    "get_product_row db (SaleItemBase.product_id item) = Some product"
    "Product.quantity_available product = Some available"
    "SaleItemBase.quantity item \<le> available"
    by (auto simp: item_accepted_def split: option.splits)
  then show ?case
    using Cons.IH[OF pre] by (simp add: Let_def)
qed

lemma sale_loop_Inr_accepted:
  "sale_loop db its ptu lid sub = Inr r \<Longrightarrow> list_all (item_accepted db) its"
proof (induction its arbitrary: ptu lid sub)
  case Nil
  show ?case by simp
next
  case (Cons item rest)
  from Cons.prems obtain product available ptu' lid' sub' where
    "0 < SaleItemBase.quantity item"
    "get_product_row db (SaleItemBase.product_id item) = Some product"
    "Product.quantity_available product = Some available"
    "SaleItemBase.quantity item \<le> available"
    and rec: "sale_loop db rest ptu' lid' sub' = Inr r"
    by (auto simp: Let_def split: if_splits option.splits)
  then have "item_accepted db item"
    by (simp add: item_accepted_def)
  with Cons.IH[OF rec] show ?case by simp
qed

lemma create_new_sale_HTTPException:
  assumes "SaleCreate.items sd \<noteq> []"
    and "sale_loop db (SaleCreate.items sd) [] [] 0 = Inl (HTTPException code d)"
  shows "create_new_sale now sd db = (Inl (HTTPException code d), db)"
  using assms by (simp add: create_new_sale_def create_sale_def)

lemma create_new_sale_cases:
  obtains (ok) sale db' where "create_new_sale now sd db = (Inr sale, db')"
  | (failed) code d where "create_new_sale now sd db = (Inl (HTTPException code d), db)"
proof (cases "create_sale now db sd")
  case (Inl e)
  then show ?thesis
    by (cases e) (auto simp: create_new_sale_def intro: failed)
next
  case (Inr r)
  obtain sale db' where r: "r = (sale, db')"
    by (cases r)
  show ?thesis
  proof (cases "commit_sale_error db sd db'")
    case None
    with Inr r show ?thesis
      by (auto simp: create_new_sale_def intro: ok)
  next
    case (Some e)
    with Inr r show ?thesis
      by (auto simp: create_new_sale_def intro: failed)
  qed
qed

lemma create_new_sale_Inr_accepted:
  assumes "create_new_sale now sd db = (Inr sale, db')"
  shows "list_all (item_accepted db) (SaleCreate.items sd)"
proof -
  from assms have "create_sale now db sd = Inr (sale, db')"
    by (simp add: create_new_sale_Inr)
  then obtain r where "sale_loop db (SaleCreate.items sd) [] [] 0 = Inr r"
    by (elim create_sale_InrD) simp
  then show ?thesis by (rule sale_loop_Inr_accepted)
qed

text \<open>
  C5. A sale without items is answered 400 (sale must contain at least one item) and
  the state is the one before the call. Otherwise the items are checked in their order:
  when every item before some item passes the checks and that item's quantity is not
  positive, the answer is 400 naming the item's product id; when its quantity is
  positive and its product does not exist, the answer is 404 naming the id. In both
  cases the state is the one before the call.
\<close>

theorem create_sale_rejects_first_offender:
  "(SaleCreate.items sale_data = [] \<longrightarrow>
      create_new_sale now sale_data db = (Inl (HTTPException 400 SaleMustContainItem), db)) \<and>
   (SaleCreate.items sale_data = pre @ item # post \<and> list_all (item_accepted db) pre \<and>
    SaleItemBase.quantity item \<le> 0 \<longrightarrow>
      create_new_sale now sale_data db =
        (Inl (HTTPException 400 (QuantityMustBePositive (SaleItemBase.product_id item))), db)) \<and>
   (SaleCreate.items sale_data = pre @ item # post \<and> list_all (item_accepted db) pre \<and>
    0 < SaleItemBase.quantity item \<and>
    get_product_row db (SaleItemBase.product_id item) = None \<longrightarrow>
      create_new_sale now sale_data db =
        (Inl (HTTPException 404 (ProductNotFoundId (SaleItemBase.product_id item))), db))"
proof (intro conjI impI)
  assume "SaleCreate.items sale_data = []"
  then show "create_new_sale now sale_data db =
      (Inl (HTTPException 400 SaleMustContainItem), db)"
    by (simp add: create_new_sale_def create_sale_def)
next
  assume h: "SaleCreate.items sale_data = pre @ item # post \<and>
    list_all (item_accepted db) pre \<and> SaleItemBase.quantity item \<le> 0"
  then obtain ptu lid sub where
    "sale_loop db (SaleCreate.items sale_data) [] [] 0 = sale_loop db (item # post) ptu lid sub"
    using sale_loop_accepted_prefix[of db pre "item # post" "[]" "[]" 0] by auto
  with h have "sale_loop db (SaleCreate.items sale_data) [] [] 0 =
      Inl (HTTPException 400 (QuantityMustBePositive (SaleItemBase.product_id item)))"
    by simp
  moreover from h have "SaleCreate.items sale_data \<noteq> []" by simp
  ultimately show "create_new_sale now sale_data db =
      (Inl (HTTPException 400 (QuantityMustBePositive (SaleItemBase.product_id item))), db)"
    by (simp add: create_new_sale_HTTPException)
next
  assume h: "SaleCreate.items sale_data = pre @ item # post \<and>
    list_all (item_accepted db) pre \<and> 0 < SaleItemBase.quantity item \<and>
    get_product_row db (SaleItemBase.product_id item) = None"
  then obtain ptu lid sub where
    "sale_loop db (SaleCreate.items sale_data) [] [] 0 = sale_loop db (item # post) ptu lid sub"
    using sale_loop_accepted_prefix[of db pre "item # post" "[]" "[]" 0] by auto
  with h have "sale_loop db (SaleCreate.items sale_data) [] [] 0 =
      Inl (HTTPException 404 (ProductNotFoundId (SaleItemBase.product_id item)))"
    by simp
  moreover from h have "SaleCreate.items sale_data \<noteq> []" by simp
  ultimately show "create_new_sale now sale_data db =
      (Inl (HTTPException 404 (ProductNotFoundId (SaleItemBase.product_id item))), db)"
    by (simp add: create_new_sale_HTTPException)
qed

text \<open>
  C4, amended. When every item before some item passes the checks and that item has a
  positive quantity above the stock of its existing product, the sale is answered 400
  with the insufficient-stock message carrying the product's name and SKU, the
  requested quantity and the stock, and the state is the one before the call. A sale
  with any item whose quantity is above the stock of its product fails, with the state
  unchanged; the error is that of the first item that fails a check, which can be
  another one.
\<close>

theorem insufficient_stock_rejected:
  "(SaleCreate.items sale_data = pre @ item # post \<and> list_all (item_accepted db) pre \<and>
    0 < SaleItemBase.quantity item \<and>
    get_product_row db (SaleItemBase.product_id item) = Some product \<and>
    Product.quantity_available product = Some available \<and>
    available < SaleItemBase.quantity item \<longrightarrow>
      create_new_sale now sale_data db =
        (Inl (HTTPException 400
           (InsufficientStock (Product.name product) (Product.sku product)
              (SaleItemBase.quantity item) available)), db)) \<and>
   (item \<in> set (SaleCreate.items sale_data) \<and>
    get_product_row db (SaleItemBase.product_id item) = Some product \<and>
    Product.quantity_available product = Some available \<and>
    available < SaleItemBase.quantity item \<longrightarrow>
      (\<exists>code d. create_new_sale now sale_data db = (Inl (HTTPException code d), db)))"
proof (intro conjI impI)
  assume h: "SaleCreate.items sale_data = pre @ item # post \<and>
    list_all (item_accepted db) pre \<and> 0 < SaleItemBase.quantity item \<and>
    get_product_row db (SaleItemBase.product_id item) = Some product \<and>
    Product.quantity_available product = Some available \<and>
    available < SaleItemBase.quantity item"
  then obtain ptu lid sub where
    "sale_loop db (SaleCreate.items sale_data) [] [] 0 = sale_loop db (item # post) ptu lid sub"
    using sale_loop_accepted_prefix[of db pre "item # post" "[]" "[]" 0] by auto
  with h have "sale_loop db (SaleCreate.items sale_data) [] [] 0 =
      Inl (HTTPException 400
           (InsufficientStock (Product.name product) (Product.sku product)
              (SaleItemBase.quantity item) available))"
    by simp
  moreover from h have "SaleCreate.items sale_data \<noteq> []" by simp
  ultimately show "create_new_sale now sale_data db =
        (Inl (HTTPException 400
           (InsufficientStock (Product.name product) (Product.sku product)
              (SaleItemBase.quantity item) available)), db)"
    by (simp add: create_new_sale_HTTPException)
next
  assume h: "item \<in> set (SaleCreate.items sale_data) \<and>
    get_product_row db (SaleItemBase.product_id item) = Some product \<and>
    Product.quantity_available product = Some available \<and>
    available < SaleItemBase.quantity item"
  then have no: "\<not> item_accepted db item"
    by (simp add: item_accepted_def)
  show "\<exists>code d. create_new_sale now sale_data db = (Inl (HTTPException code d), db)"
  proof (cases rule: create_new_sale_cases[of now sale_data db])
    case (ok sale db')
    then have "list_all (item_accepted db) (SaleCreate.items sale_data)"
      by (rule create_new_sale_Inr_accepted)
    with h no show ?thesis by (simp add: list_all_iff)
  next
    case (failed code d)
    then show ?thesis by blast
  qed
qed


lemma get_product_row_shop_2: "get_product_row shop 2 = Some product_B"
  by (simp add: get_product_row_def shop_defs)

lemma get_product_row_shop_99: "get_product_row shop 99 = None"
  by (simp add: get_product_row_def shop_defs)

lemma item_accepted_shop_1_3:
  "item_accepted shop \<lparr>SaleItemBase.product_id = 1, SaleItemBase.quantity = 3\<rparr>"
  by (simp add: item_accepted_def get_product_row_shop_1) (simp add: product_A_def)

theorem create_sale_rejects_first_offender_witness:
  "SaleCreate.items (sale_of []) = [] \<and>
   create_new_sale 7 (sale_of []) shop = (Inl (HTTPException 400 SaleMustContainItem), shop) \<and>
   SaleCreate.items (sale_of [(1, 3), (2, 0), (99, 1)]) =
     [\<lparr>SaleItemBase.product_id = 1, SaleItemBase.quantity = 3\<rparr>] @
     \<lparr>SaleItemBase.product_id = 2, SaleItemBase.quantity = 0\<rparr> #
     [\<lparr>SaleItemBase.product_id = 99, SaleItemBase.quantity = 1\<rparr>] \<and>
   list_all (item_accepted shop) [\<lparr>SaleItemBase.product_id = 1, SaleItemBase.quantity = 3\<rparr>] \<and>
   create_new_sale 7 (sale_of [(1, 3), (2, 0), (99, 1)]) shop =
     (Inl (HTTPException 400 (QuantityMustBePositive 2)), shop) \<and>
   SaleCreate.items (sale_of [(1, 3), (99, 1), (2, 0)]) =
     [\<lparr>SaleItemBase.product_id = 1, SaleItemBase.quantity = 3\<rparr>] @
     \<lparr>SaleItemBase.product_id = 99, SaleItemBase.quantity = 1\<rparr> #
     [\<lparr>SaleItemBase.product_id = 2, SaleItemBase.quantity = 0\<rparr>] \<and>
   get_product_row shop 99 = None \<and>
   create_new_sale 7 (sale_of [(1, 3), (99, 1), (2, 0)]) shop =
     (Inl (HTTPException 404 (ProductNotFoundId 99)), shop)"
proof -
  have a: "SaleCreate.items (sale_of []) = []"
    by (simp add: sale_of_def)
  have b: "SaleCreate.items (sale_of [(1, 3), (2, 0), (99, 1)]) =
      [\<lparr>SaleItemBase.product_id = 1, SaleItemBase.quantity = 3\<rparr>] @
      \<lparr>SaleItemBase.product_id = 2, SaleItemBase.quantity = 0\<rparr> #
      [\<lparr>SaleItemBase.product_id = 99, SaleItemBase.quantity = 1\<rparr>]"
    by (simp add: sale_of_def)
  have c: "SaleCreate.items (sale_of [(1, 3), (99, 1), (2, 0)]) =
      [\<lparr>SaleItemBase.product_id = 1, SaleItemBase.quantity = 3\<rparr>] @
      \<lparr>SaleItemBase.product_id = 99, SaleItemBase.quantity = 1\<rparr> #
      [\<lparr>SaleItemBase.product_id = 2, SaleItemBase.quantity = 0\<rparr>]"
    by (simp add: sale_of_def)
  have p: "list_all (item_accepted shop)
      [\<lparr>SaleItemBase.product_id = 1, SaleItemBase.quantity = 3\<rparr>]"
    by (simp add: item_accepted_shop_1_3)
  note t = create_sale_rejects_first_offender
  from t[of "sale_of []" 7 shop, THEN conjunct1, rule_format, OF a]
  have 1: "create_new_sale 7 (sale_of []) shop =
      (Inl (HTTPException 400 SaleMustContainItem), shop)" .
  from t[of "sale_of [(1, 3), (2, 0), (99, 1)]" 7 shop
      "[\<lparr>SaleItemBase.product_id = 1, SaleItemBase.quantity = 3\<rparr>]"
      "\<lparr>SaleItemBase.product_id = 2, SaleItemBase.quantity = 0\<rparr>"
      "[\<lparr>SaleItemBase.product_id = 99, SaleItemBase.quantity = 1\<rparr>]",
      THEN conjunct2, THEN conjunct1, rule_format] b p
  have 2: "create_new_sale 7 (sale_of [(1, 3), (2, 0), (99, 1)]) shop =
      (Inl (HTTPException 400 (QuantityMustBePositive 2)), shop)"
    by simp
  from t[of "sale_of [(1, 3), (99, 1), (2, 0)]" 7 shop
      "[\<lparr>SaleItemBase.product_id = 1, SaleItemBase.quantity = 3\<rparr>]"
      "\<lparr>SaleItemBase.product_id = 99, SaleItemBase.quantity = 1\<rparr>"
      "[\<lparr>SaleItemBase.product_id = 2, SaleItemBase.quantity = 0\<rparr>]",
      THEN conjunct2, THEN conjunct2, rule_format] c p get_product_row_shop_99
  have 3: "create_new_sale 7 (sale_of [(1, 3), (99, 1), (2, 0)]) shop =
      (Inl (HTTPException 404 (ProductNotFoundId 99)), shop)"
    by simp
  from a b c p 1 2 3 get_product_row_shop_99 show ?thesis by blast
qed

theorem insufficient_stock_rejected_witness:
  "SaleCreate.items (sale_of [(1, 3), (2, 50)]) =
     [\<lparr>SaleItemBase.product_id = 1, SaleItemBase.quantity = 3\<rparr>] @
     \<lparr>SaleItemBase.product_id = 2, SaleItemBase.quantity = 50\<rparr> # [] \<and>
   list_all (item_accepted shop) [\<lparr>SaleItemBase.product_id = 1, SaleItemBase.quantity = 3\<rparr>] \<and>
   get_product_row shop 2 = Some product_B \<and>
   Product.quantity_available product_B = Some 40 \<and>
   create_new_sale 7 (sale_of [(1, 3), (2, 50)]) shop =
     (Inl (HTTPException 400 (InsufficientStock ''Bolt'' ''BO-2'' 50 40)), shop) \<and>
   \<lparr>SaleItemBase.product_id = 2, SaleItemBase.quantity = 50\<rparr>
     \<in> set (SaleCreate.items (sale_of [(1, 3), (2, 50)])) \<and>
   (\<exists>code d. create_new_sale 7 (sale_of [(1, 3), (2, 50)]) shop =
      (Inl (HTTPException code d), shop))"
proof -
  have b: "SaleCreate.items (sale_of [(1, 3), (2, 50)]) =
      [\<lparr>SaleItemBase.product_id = 1, SaleItemBase.quantity = 3\<rparr>] @
      \<lparr>SaleItemBase.product_id = 2, SaleItemBase.quantity = 50\<rparr> # []"
    by (simp add: sale_of_def)
  have p: "list_all (item_accepted shop)
      [\<lparr>SaleItemBase.product_id = 1, SaleItemBase.quantity = 3\<rparr>]"
    by (simp add: item_accepted_shop_1_3)
  have q: "Product.quantity_available product_B = Some 40"
    "Product.name product_B = ''Bolt''" "Product.sku product_B = ''BO-2''"
    by (simp_all add: product_B_def)
  have m: "\<lparr>SaleItemBase.product_id = 2, SaleItemBase.quantity = 50\<rparr>
      \<in> set (SaleCreate.items (sale_of [(1, 3), (2, 50)]))"
    by (simp add: sale_of_def)
  note t = insufficient_stock_rejected[of "sale_of [(1, 3), (2, 50)]"
      "[\<lparr>SaleItemBase.product_id = 1, SaleItemBase.quantity = 3\<rparr>]"
      "\<lparr>SaleItemBase.product_id = 2, SaleItemBase.quantity = 50\<rparr>"
      "[]" shop product_B 40 7]
  from t[THEN conjunct1, rule_format] b p q get_product_row_shop_2
  have 1: "create_new_sale 7 (sale_of [(1, 3), (2, 50)]) shop =
      (Inl (HTTPException 400 (InsufficientStock ''Bolt'' ''BO-2'' 50 40)), shop)"
    by simp
  from t[THEN conjunct2, rule_format] m q get_product_row_shop_2
  have 2: "\<exists>code d. create_new_sale 7 (sale_of [(1, 3), (2, 50)]) shop =
      (Inl (HTTPException code d), shop)"
    by simp
  from b p q(1) m 1 2 get_product_row_shop_2 show ?thesis by blast
qed

theorem insufficient_stock_counterexample:
  "get_product_row shop 1 = Some product_A \<and>
   Product.quantity_available product_A = Some 5 \<and> (5::int) < 10 \<and>
   create_new_sale 7 (sale_of [(99, 1), (1, 10)]) shop =
     (Inl (HTTPException 404 (ProductNotFoundId 99)), shop)"
  by (simp add: get_product_row_shop_1)
    (simp add: create_new_sale_def create_sale_def get_product_row_def shop_defs)

subsection \<open>Stock never becomes negative\<close>

lemma find_unique:
  "distinct (map f xs) \<Longrightarrow> x \<in> set xs \<Longrightarrow> find (\<lambda>y. f y = f x) xs = Some x"
  by (induction xs) (auto simp: image_iff)

lemma sale_loop_products_to_update:
  "sale_loop db its ptu lid sub = Inr (ptu', lid', sub') \<Longrightarrow>
   ptu' = ptu @ map (\<lambda>item. (SaleItemBase.product_id item, SaleItemBase.quantity item)) its"
proof (induction its arbitrary: ptu lid sub)
  case Nil
  then show ?case by simp
next
  case (Cons item rest)
  from Cons.prems obtain product lid1 sub1 where
    p: "get_product_row db (SaleItemBase.product_id item) = Some product"
    and rec: "sale_loop db rest (ptu @ [(Product.id product, SaleItemBase.quantity item)])
        lid1 sub1 = Inr (ptu', lid', sub')"
    by (auto simp: Let_def split: if_splits option.splits)
  from p have "Product.id product = SaleItemBase.product_id item"
    by (rule get_product_row_id)
  with Cons.IH[OF rec] show ?case by simp
qed

lemma products_decrement_stock:
  "products (decrement_stock now db u) =
     map (\<lambda>p. if Product.id p = fst u
            then p\<lparr>Product.quantity_available :=
                     map_option (\<lambda>a. a - snd u) (Product.quantity_available p),
                   Product.updated_at := now\<rparr>
            else p) (products db)"
  by (simp add: decrement_stock_def)

lemma ids_decrement_stock [simp]:
  "map Product.id (products (decrement_stock now db u)) = map Product.id (products db)"
  by (simp add: products_decrement_stock o_def if_distrib cong: if_cong)

lemma next_product_id_decrement_stock [simp]:
  "next_product_id (decrement_stock now db u) = next_product_id db"
  by (simp add: decrement_stock_def)

lemma ids_foldl_decrement_stock [simp]:
  "map Product.id (products (foldl (decrement_stock now) db ptu)) = map Product.id (products db)"
  by (induction ptu arbitrary: db) simp_all

lemma next_product_id_foldl_decrement_stock [simp]:
  "next_product_id (foldl (decrement_stock now) db ptu) = next_product_id db"
  by (induction ptu arbitrary: db) simp_all

lemma next_product_id_foldl_add_sale_item [simp]:
  "next_product_id (foldl (add_sale_item sid) db xs) = next_product_id db"
  by (induction xs arbitrary: db) (simp_all add: add_sale_item_def)

lemma covered_iff:
  "covered db u \<longleftrightarrow>
     (\<forall>p \<in> set (products db). Product.id p = fst u \<longrightarrow>
        (\<exists>a. Product.quantity_available p = Some a \<and> snd u \<le> a))"
  by (auto simp: covered_def list_all_iff split: option.splits)

lemma nonneg_stock_iff:
  "nonneg_stock db \<longleftrightarrow>
     (\<forall>p \<in> set (products db). \<forall>q. Product.quantity_available p = Some q \<longrightarrow> 0 \<le> q)"
  by (auto simp: nonneg_stock_def list_all_iff split: option.splits)

lemma nonneg_stock_decrement_stock:
  assumes "nonneg_stock db" "covered db u"
  shows "nonneg_stock (decrement_stock now db u)"
  using assms
  by (auto simp: nonneg_stock_iff covered_iff products_decrement_stock split: if_splits)

lemma covered_decrement_stock:
  assumes "covered db v" "fst v \<noteq> fst u"
  shows "covered (decrement_stock now db u) v"
  using assms
  by (auto simp: covered_iff products_decrement_stock split: if_splits)

lemma nonneg_stock_foldl_decrement_stock:
  assumes "distinct (map fst ptu)" "\<forall>u \<in> set ptu. covered db u" "nonneg_stock db"
  shows "nonneg_stock (foldl (decrement_stock now) db ptu)"
  using assms
proof (induction ptu arbitrary: db)
  case Nil
  then show ?case by simp
next
  case (Cons u ptu)
  have "nonneg_stock (decrement_stock now db u)"
    using Cons.prems by (simp add: nonneg_stock_decrement_stock)
  moreover have "\<forall>v \<in> set ptu. covered (decrement_stock now db u) v"
  proof
    fix v assume v: "v \<in> set ptu"
    with Cons.prems(1) have "fst v \<noteq> fst u" by (auto simp: image_iff)
    moreover from v Cons.prems(2) have "covered db v" by simp
    ultimately show "covered (decrement_stock now db u) v"
      by (intro covered_decrement_stock)
  qed
  moreover have "distinct (map fst ptu)"
    using Cons.prems by simp
  ultimately show ?case
    using Cons.IH by simp
qed

lemma item_accepted_covered:
  assumes "primary_key db" "item_accepted db item"
  shows "covered db (SaleItemBase.product_id item, SaleItemBase.quantity item)"
proof -
  from assms(2) obtain product available where
    p: "get_product_row db (SaleItemBase.product_id item) = Some product"
    and a: "Product.quantity_available product = Some available"
      "SaleItemBase.quantity item \<le> available"
    by (auto simp: item_accepted_def split: option.splits)
  have "r = product"
    if "r \<in> set (products db)" "Product.id r = SaleItemBase.product_id item" for r
  proof -
    from assms(1) that(1) have "find (\<lambda>y. Product.id y = Product.id r) (products db) = Some r"
      by (intro find_unique) (simp_all add: primary_key_def)
    with p that(2) show ?thesis by (simp add: get_product_row_def)
  qed
  with a show ?thesis by (auto simp: covered_iff)
qed

lemma covered_cong: "products db = products db' \<Longrightarrow> covered db u = covered db' u"
  by (simp add: covered_def)

lemma nonneg_stock_cong: "products db = products db' \<Longrightarrow> nonneg_stock db = nonneg_stock db'"
  by (simp add: nonneg_stock_def)

lemma primary_key_cong:
  "map Product.id (products db) = map Product.id (products db') \<Longrightarrow>
   next_product_id db = next_product_id db' \<Longrightarrow> primary_key db = primary_key db'"
proof -
  assume ids: "map Product.id (products db) = map Product.id (products db')"
    and n: "next_product_id db = next_product_id db'"
  have la: "list_all (\<lambda>p. Product.id p < k) ps = list_all (\<lambda>i. i < k) (map Product.id ps)"
    for k ps
    by (simp add: list_all_iff)
  show ?thesis
    unfolding primary_key_def la using ids n by simp
qed

lemma create_new_sale_preserves:
  assumes "primary_key db" "nonneg_stock db"
    and "distinct (map SaleItemBase.product_id (SaleCreate.items sd))"
  shows "primary_key (snd (create_new_sale now sd db)) \<and>
         nonneg_stock (snd (create_new_sale now sd db))"
proof (cases rule: create_new_sale_cases[of now sd db])
  case (failed code d)
  with assms show ?thesis by simp
next
  case (ok sale db')
  then have acc: "list_all (item_accepted db) (SaleCreate.items sd)"
    by (rule create_new_sale_Inr_accepted)
  from ok have "create_sale now db sd = Inr (sale, db')"
    by (simp add: create_new_sale_Inr)
  then obtain ptu lid sub where
    loop: "sale_loop db (SaleCreate.items sd) [] [] 0 = Inr (ptu, lid, sub)"
    and db': "db' = foldl (decrement_stock now)
             (foldl (add_sale_item (next_sale_id db))
                (db\<lparr>sales := sales db @ [sale], next_sale_id := next_sale_id db + 1\<rparr>) lid) ptu"
    by (elim create_sale_InrD)
  define db2 where "db2 = foldl (add_sale_item (next_sale_id db))
                (db\<lparr>sales := sales db @ [sale], next_sale_id := next_sale_id db + 1\<rparr>) lid"
  have p2: "products db2 = products db" and n2: "next_product_id db2 = next_product_id db"
    by (simp_all add: db2_def)
  from sale_loop_products_to_update[OF loop]
  have ptu: "ptu = map (\<lambda>item. (SaleItemBase.product_id item, SaleItemBase.quantity item))
      (SaleCreate.items sd)"
    by simp
  have "distinct (map fst ptu)"
    using assms(3) by (simp add: ptu o_def)
  moreover have "\<forall>u \<in> set ptu. covered db2 u"
    using acc assms(1) by (auto simp: ptu list_all_iff covered_cong[OF p2] intro: item_accepted_covered)
  moreover have "nonneg_stock db2"
    using assms(2) by (simp add: nonneg_stock_cong[OF p2])
  ultimately have "nonneg_stock db'"
    unfolding db' db2_def[symmetric] by (rule nonneg_stock_foldl_decrement_stock)
  moreover have "primary_key db'"
    using assms(1) unfolding db' db2_def[symmetric]
    by (simp add: primary_key_cong[of "foldl (decrement_stock now) db2 ptu" db] p2 n2)
  ultimately show ?thesis using ok by simp
qed

lemma setattr_keeps:
  "setattr p a = Inr p' \<Longrightarrow>
   Product.id p' = Product.id p \<and> Product.created_at p' = Product.created_at p \<and>
   Product.updated_at p' = Product.updated_at p \<and>
   (Product.quantity_available p' = Product.quantity_available p \<or>
    a = Key_quantity_available (Product.quantity_available p'))"
  by (cases "(p, a)" rule: setattr.cases) auto

lemma setattr_loop_keeps:
  "setattr_loop p update_data = Inr p' \<Longrightarrow>
   Product.id p' = Product.id p \<and> Product.created_at p' = Product.created_at p \<and>
   Product.updated_at p' = Product.updated_at p \<and>
   (Product.quantity_available p' = Product.quantity_available p \<or>
    Key_quantity_available (Product.quantity_available p') \<in> set update_data)"
proof (induction update_data arbitrary: p)
  case Nil
  then show ?case by simp
next
  case (Cons a update_data)
  from Cons.prems obtain p1 where 1: "setattr p a = Inr p1"
    and 2: "setattr_loop p1 update_data = Inr p'"
    by (auto split: sum.splits)
  from setattr_keeps[OF 1] Cons.IH[OF 2] show ?case by auto
qed

lemma Key_quantity_available_dumped:
  "Key_quantity_available v \<in> set (model_dump_exclude_unset u) \<Longrightarrow>
   ProductUpdate.quantity_available u = Given v"
  by (auto simp: model_dump_exclude_unset_def dump_field_def split: field.splits)

lemma get_product_row_in_set:
  "get_product_row db i = Some p \<Longrightarrow> p \<in> set (products db) \<and> Product.id p = i"
  by (auto simp: get_product_row_def find_Some_iff)

lemma update_product_preserves:
  assumes "primary_key db" "nonneg_stock db" "no_negative_quantity product_update"
  shows "primary_key (snd (update_product coll now i product_update db)) \<and>
         nonneg_stock (snd (update_product coll now i product_update db))"
proof (cases "get_product_row db i")
  case None
  with assms show ?thesis by (simp add: update_product_def)
next
  case (Some product)
  note found = Some
  note row = get_product_row_in_set[OF Some]
  show ?thesis
  proof (cases "setattr_loop product (model_dump_exclude_unset product_update)")
    case (Inl e)
    with Some assms show ?thesis by (simp add: update_product_def)
  next
    case (Inr p)
    show ?thesis
    proof (cases "product_update_error coll db product p")
      case (Some e)
      with found Inr assms show ?thesis
        by (simp add: update_product_def)
    next
      case None
    define p' where "p' = (if p = product then p else p\<lparr>Product.updated_at := now\<rparr>)"
    have db': "snd (update_product coll now i product_update db) =
        db\<lparr>products := map (\<lambda>r. if Product.id r = i then p' else r) (products db)\<rparr>"
      using found Inr None by (simp add: update_product_def p'_def Let_def)
    from setattr_loop_keeps[OF Inr] row
    have id: "Product.id p' = i"
      and qa: "Product.quantity_available p' = Product.quantity_available product \<or>
        Key_quantity_available (Product.quantity_available p')
          \<in> set (model_dump_exclude_unset product_update)"
      by (auto simp: p'_def)
    have ok: "0 \<le> q" if "Product.quantity_available p' = Some q" for q
      using qa
    proof
      assume "Product.quantity_available p' = Product.quantity_available product"
      with that row assms(2) show ?thesis by (auto simp: nonneg_stock_iff)
    next
      assume "Key_quantity_available (Product.quantity_available p')
          \<in> set (model_dump_exclude_unset product_update)"
      then have "ProductUpdate.quantity_available product_update = Given (Some q)"
        using that by (auto dest: Key_quantity_available_dumped)
      with assms(3) show ?thesis by (simp add: no_negative_quantity_def)
    qed
    have ids: "map Product.id (map (\<lambda>r. if Product.id r = i then p' else r) (products db)) =
        map Product.id (products db)"
      using id by (induction "products db") (auto simp: o_def)
    have "primary_key (snd (update_product coll now i product_update db))"
      unfolding db' using assms(1) ids
      by (simp add: primary_key_cong[of "db\<lparr>products := map (\<lambda>r. if Product.id r = i then p' else r) (products db)\<rparr>" db])
    moreover have "nonneg_stock (snd (update_product coll now i product_update db))"
      unfolding db' using assms(2) ok by (auto simp: nonneg_stock_iff)
    ultimately show ?thesis by simp
    qed
  qed
qed

lemma create_product_preserves:
  assumes "primary_key db" "nonneg_stock db" "0 \<le> ProductCreate.quantity_available product"
  shows "primary_key (snd (create_product coll now product db)) \<and>
         nonneg_stock (snd (create_product coll now product db))"
proof (cases "find (\<lambda>p. coll (Product.sku p) = coll (ProductCreate.sku product)) (products db)")
  case (Some db_product)
  with assms show ?thesis by (simp add: create_product_def)
next
  case None
  with assms show ?thesis
    by (auto simp: create_product_def Let_def primary_key_def nonneg_stock_def list_all_iff
        split: option.splits)
qed

lemma create_supplier_preserves:
  assumes "primary_key db" "nonneg_stock db"
  shows "primary_key (snd (create_supplier now supplier db)) \<and>
         nonneg_stock (snd (create_supplier now supplier db))"
  using assms
  by (simp add: create_supplier_def Let_def primary_key_def nonneg_stock_def)

lemma delete_product_preserves:
  assumes "primary_key db" "nonneg_stock db"
  shows "primary_key (snd (delete_product i db)) \<and> nonneg_stock (snd (delete_product i db))"
  using assms
  by (auto simp: delete_product_def primary_key_def nonneg_stock_def list_all_iff
      distinct_map_filter split: option.splits)

lemma reachable_invariant:
  "reachable coll db \<Longrightarrow> primary_key db \<and> nonneg_stock db"
proof (induction rule: reachable.induct)
  case initial
  show ?case by (simp add: empty_db_def primary_key_def nonneg_stock_def)
next
  case (by_create_supplier db now supplier)
  then show ?case by (simp add: create_supplier_preserves)
next
  case (by_create_product db product now)
  then show ?case by (simp add: create_product_preserves)
next
  case (by_update_product db product_update now i)
  then show ?case by (simp add: update_product_preserves)
next
  case (by_delete_product db i)
  then show ?case by (simp add: delete_product_preserves)
next
  case (by_create_new_sale db sale_data now)
  then show ?case by (simp add: create_new_sale_preserves)
qed

text \<open>
  C2, amended. In every state reached from the empty store by product creations and
  updates whose request carries no negative quantity, by product deletions and by
  sales whose items name pairwise distinct products, no product has a negative
  \<^verbatim>\<open>quantity_available\<close>, and a further sale with pairwise distinct products leaves
  none negative, whether it fails or succeeds. The endpoints that create and update a
  product store the quantity of the request as it is, and a sale that names a product
  twice checks each item against the stock before the sale and subtracts both.
\<close>

theorem stock_never_negative:
  assumes "reachable coll db"
  shows "(\<forall>p \<in> set (products db). \<forall>q. Product.quantity_available p = Some q \<longrightarrow> 0 \<le> q) \<and>
   (distinct (map SaleItemBase.product_id (SaleCreate.items sale_data)) \<longrightarrow>
      (\<forall>p \<in> set (products (snd (create_new_sale now sale_data db))).
         \<forall>q. Product.quantity_available p = Some q \<longrightarrow> 0 \<le> q))"
proof (intro conjI impI)
  from reachable_invariant[OF assms]
  show "\<forall>p \<in> set (products db). \<forall>q. Product.quantity_available p = Some q \<longrightarrow> 0 \<le> q"
    by (simp add: nonneg_stock_iff)
next
  assume "distinct (map SaleItemBase.product_id (SaleCreate.items sale_data))"
  with assms have "reachable coll (snd (create_new_sale now sale_data db))"
    by (rule reachable.by_create_new_sale)
  from reachable_invariant[OF this]
  show "\<forall>p \<in> set (products (snd (create_new_sale now sale_data db))).
         \<forall>q. Product.quantity_available p = Some q \<longrightarrow> 0 \<le> q"
    by (simp add: nonneg_stock_iff)
qed

lemma create_products_shop:
  "snd (create_product (\<lambda>s. s) 0 bolt (snd (create_product (\<lambda>s. s) 0 anvil empty_db))) = shop"
  by (simp add: create_product_def product_insert_error_def in_String_def in_Integer_def
      nullable_def supplier_exists_def Let_def empty_db_def anvil_def bolt_def shop_defs)

lemma reachable_shop: "reachable (\<lambda>s. s) shop"
proof -
  have "reachable (\<lambda>s. s) (snd (create_product (\<lambda>s. s) 0 anvil empty_db))"
    by (rule reachable.by_create_product[OF reachable.initial]) (simp add: anvil_def)
  from reachable.by_create_product[OF this, of bolt 0]
  have "reachable (\<lambda>s. s)
      (snd (create_product (\<lambda>s. s) 0 bolt (snd (create_product (\<lambda>s. s) 0 anvil empty_db))))"
    by (simp add: bolt_def)
  then show ?thesis by (simp add: create_products_shop)
qed

theorem stock_never_negative_witness:
  "reachable (\<lambda>s. s) shop \<and>
   distinct (map SaleItemBase.product_id (SaleCreate.items (sale_of [(1, 3)]))) \<and>
   product_A \<in> set (products shop) \<and>
   Product.quantity_available product_A = Some 5 \<and> (0::int) \<le> 5 \<and>
   product_A\<lparr>Product.quantity_available := Some 2, Product.updated_at := 7\<rparr>
     \<in> set (products (snd (create_new_sale 7 (sale_of [(1, 3)]) shop))) \<and>
   Product.quantity_available
     (product_A\<lparr>Product.quantity_available := Some 2, Product.updated_at := 7\<rparr>) = Some 2 \<and>
   (0::int) \<le> 2"
proof -
  have d: "distinct (map SaleItemBase.product_id (SaleCreate.items (sale_of [(1, 3)])))"
    by (simp add: sale_of_def)
  have a: "product_A \<in> set (products shop)" "Product.quantity_available product_A = Some 5"
    by (simp_all add: shop_defs)
  have m: "product_A\<lparr>Product.quantity_available := Some 2, Product.updated_at := 7\<rparr>
      \<in> set (products (snd (create_new_sale 7 (sale_of [(1, 3)]) shop)))"
    by (simp add: create_new_sale_shop)
  have q: "Product.quantity_available
      (product_A\<lparr>Product.quantity_available := Some 2, Product.updated_at := 7\<rparr>) = Some 2"
    by simp
  note t = stock_never_negative[OF reachable_shop, of "sale_of [(1, 3)]" 7]
  from t[THEN conjunct1, rule_format, OF a] have 1: "(0::int) \<le> 5" .
  from t[THEN conjunct2, rule_format, OF d m q] have 2: "(0::int) \<le> 2" .
  from reachable_shop d a m q 1 2 show ?thesis by blast
qed

theorem stock_never_negative_counterexample:
  "snd (create_product (\<lambda>s. s) 0 bolt (snd (create_product (\<lambda>s. s) 0 anvil empty_db))) = shop \<and>
   (\<exists>sale db'. create_new_sale 7 (sale_of [(1, 3), (1, 3)]) shop = (Inr sale, db') \<and>
      map Product.quantity_available (products db') = [Some (- 1), Some 40]) \<and>
   map Product.quantity_available
     (products (snd (create_product (\<lambda>s. s) 0
        (anvil\<lparr>ProductCreate.quantity_available := - 5\<rparr>) empty_db))) = [Some (- 5)]"
proof (intro conjI)
  show "snd (create_product (\<lambda>s. s) 0 bolt (snd (create_product (\<lambda>s. s) 0 anvil empty_db))) = shop"
    by (rule create_products_shop)
  show "\<exists>sale db'. create_new_sale 7 (sale_of [(1, 3), (1, 3)]) shop = (Inr sale, db') \<and>
      map Product.quantity_available (products db') = [Some (- 1), Some 40]"
    by (simp add: create_new_sale_def create_sale_def commit_sale_error_def
        get_product_row_def shop_defs add_sale_item_def decrement_stock_def tax_defs
        in_Integer_def nullable_def sale_of_def)
  show "map Product.quantity_available
     (products (snd (create_product (\<lambda>s. s) 0
        (anvil\<lparr>ProductCreate.quantity_available := - 5\<rparr>) empty_db))) = [Some (- 5)]"
    by (simp add: create_product_def product_insert_error_def in_String_def in_Integer_def
        nullable_def supplier_exists_def Let_def empty_db_def anvil_def)
qed

section \<open>The reports\<close>

subsection \<open>Sales summary\<close>

lemma in_range_iff_date:
  "datetime_combine from_date' time_min \<le> t \<and> t \<le> datetime_combine to_date' time_max \<longleftrightarrow>
   from_date' \<le> datetime_date t \<and> datetime_date t \<le> to_date'"
  unfolding datetime_combine_def time_min_def time_max_def datetime_date_def
  by linarith

text \<open>
  C6. The summary of a date range answers with the state unchanged; its total revenue
  is the sum of \<^verbatim>\<open>total_cents\<close> over the sales created on a day from the first to the
  last day of the range, both days in full, its transaction count is the number of these
  sales, and its average order value is the floor division of the revenue by the count.
  When no sale falls in the range, all three are 0 and nothing is divided.
\<close>

theorem sales_summary:
  "\<exists>summary.
     get_sales_summary from_date' to_date' db = (Inr summary, db) \<and>
     (let rows = filter (\<lambda>s. from_date' \<le> datetime_date (Sale.created_at s) \<and>
                            datetime_date (Sale.created_at s) \<le> to_date') (sales db)
      in total_revenue_cents summary = sum_list (map Sale.total_cents rows) \<and>
         transaction_count summary = int (length rows) \<and>
         average_order_value_cents summary =
           (if rows = [] then 0
            else sum_list (map Sale.total_cents rows) div int (length rows)) \<and>
         (if rows = []
          then total_revenue_cents summary = 0 \<and> transaction_count summary = 0 \<and>
               average_order_value_cents summary = 0
          else 0 < transaction_count summary))"
  by (simp add: get_sales_summary_def Let_def in_range_iff_date)

subsection \<open>Low stock\<close>

lemma sorted_map_Some:
  "sorted (map f xs) \<Longrightarrow> \<forall>x \<in> set xs. \<exists>q. f x = Some q \<Longrightarrow>
   \<exists>qs :: int list. map f xs = map Some qs \<and> sorted qs"
proof (induction xs)
  case Nil
  show ?case by simp
next
  case (Cons x xs)
  then obtain qs where qs: "map f xs = map Some qs" "sorted qs"
    by auto
  from Cons.prems obtain q where q: "f x = Some q" by auto
  have "q \<le> r" if "r \<in> set qs" for r
  proof -
    from that have "Some r \<in> set (map f xs)" by (simp add: qs(1))
    then obtain y where y: "y \<in> set xs" "f y = Some r" by auto
    from Cons.prems(1) y(1) have "f x \<le> f y" by simp
    with q y(2) show ?thesis by simp
  qed
  with qs q show ?case
    by (intro exI[of _ "q # qs"]) auto
qed

text \<open>
  C7. With a threshold, the low-stock report returns exactly the products whose
  \<^verbatim>\<open>quantity_available\<close> is a number not above the threshold; without one, exactly the
  products whose \<^verbatim>\<open>quantity_available\<close> is a number not above their own
  \<^verbatim>\<open>reorder_level\<close>. In both cases the result is ordered ascending by
  \<^verbatim>\<open>quantity_available\<close>.
\<close>

theorem low_stock_report:
  "\<exists>result qs.
     get_low_stock_report threshold db = (Inr result, db) \<and>
     mset result =
       (case threshold of
          Some t \<Rightarrow>
            filter_mset (\<lambda>p. \<exists>q. Product.quantity_available p = Some q \<and> q \<le> t)
              (mset (products db))
        | None \<Rightarrow>
            filter_mset (\<lambda>p. \<exists>q r. Product.quantity_available p = Some q \<and>
                              Product.reorder_level p = Some r \<and> q \<le> r)
              (mset (products db))) \<and>
     map Product.quantity_available result = map Some qs \<and> sorted qs"
proof -
  define P where "P = (\<lambda>p :: Product. case threshold of
      Some t \<Rightarrow> (case Product.quantity_available p of None \<Rightarrow> False | Some q \<Rightarrow> q \<le> t)
    | None \<Rightarrow> (case Product.quantity_available p of
                 None \<Rightarrow> False
               | Some q \<Rightarrow> (case Product.reorder_level p of None \<Rightarrow> False | Some r \<Rightarrow> q \<le> r)))"
  define result where "result = sort_key Product.quantity_available (filter P (products db))"
  have r: "get_low_stock_report threshold db = (Inr result, db)"
    by (cases threshold) (simp_all add: get_low_stock_report_def result_def P_def)
  have P: "P = (\<lambda>p :: Product. case threshold of
      Some t \<Rightarrow> \<exists>q. Product.quantity_available p = Some q \<and> q \<le> t
    | None \<Rightarrow> \<exists>q r. Product.quantity_available p = Some q \<and>
                      Product.reorder_level p = Some r \<and> q \<le> r)"
    by (auto simp: P_def fun_eq_iff split: option.splits)
  have m: "mset result = filter_mset P (mset (products db))"
    by (simp add: result_def)
  have "sorted (map Product.quantity_available result)"
    by (simp add: result_def)
  moreover have "\<forall>p \<in> set result. \<exists>q. Product.quantity_available p = Some q"
    by (auto simp: result_def P split: option.splits)
  ultimately obtain qs where "map Product.quantity_available result = map Some qs" "sorted qs"
    using sorted_map_Some by blast
  with r m show ?thesis
    by (cases threshold) (auto simp: P)
qed

section \<open>The product endpoints\<close>

subsection \<open>Listing\<close>



subsection \<open>Deletion\<close>

text \<open>
  C8. Deleting a product id that does not exist is answered 404. Deleting a product that
  a sale item references is answered 400 and the state is unchanged, so the product is
  still there. Deleting an existing product that no sale item references succeeds: its
  rows are removed, the other products and the sales stay, the product is not found
  afterwards and no listing returns it.
\<close>

theorem delete_product_cases:
  "(get_product_row db i = None \<longrightarrow>
      delete_product i db = (Inl (HTTPException 404 ProductNotFound), db)) \<and>
   (get_product_row db i = Some p \<and> it \<in> set (sale_items db) \<and> SaleItem.product_id it = i \<longrightarrow>
      delete_product i db = (Inl (HTTPException 400 CannotDeleteProduct), db)) \<and>
   (get_product_row db i = Some p \<and> list_all (\<lambda>it. SaleItem.product_id it \<noteq> i) (sale_items db) \<longrightarrow>
      (\<exists>db'. delete_product i db = (Inr (), db') \<and>
         products db' = filter (\<lambda>r. Product.id r \<noteq> i) (products db) \<and>
         sales db' = sales db \<and> sale_items db' = sale_items db \<and>
         get_product_row db' i = None \<and>
         (\<forall>skip_arg limit_arg rows.
            get_products coll skip_arg limit_arg db' = (Inr rows, db') \<longrightarrow>
            list_all (\<lambda>r. Product.id r \<noteq> i) rows)))"
proof (intro conjI impI)
  assume "get_product_row db i = None"
  then show "delete_product i db = (Inl (HTTPException 404 ProductNotFound), db)"
    by (simp add: delete_product_def)
next
  assume h: "get_product_row db i = Some p \<and> it \<in> set (sale_items db) \<and>
    SaleItem.product_id it = i"
  then have "find (\<lambda>x. SaleItem.product_id x = i) (sale_items db) \<noteq> None"
    by (auto simp: find_None_iff)
  with h show "delete_product i db = (Inl (HTTPException 400 CannotDeleteProduct), db)"
    by (auto simp: delete_product_def)
next
  assume h: "get_product_row db i = Some p \<and>
    list_all (\<lambda>it. SaleItem.product_id it \<noteq> i) (sale_items db)"
  then have none: "find (\<lambda>x. SaleItem.product_id x = i) (sale_items db) = None"
    by (auto simp: find_None_iff list_all_iff)
  define db' where "db' = db\<lparr>products := filter (\<lambda>r. Product.id r \<noteq> i) (products db)\<rparr>"
  have d: "delete_product i db = (Inr (), db')"
    using h none by (simp add: delete_product_def db'_def)
  have gone: "get_product_row db' i = None"
    by (simp add: get_product_row_def db'_def find_None_iff)
  have listing: "list_all (\<lambda>r. Product.id r \<noteq> i) rows"
    if "get_products coll skip_arg limit_arg db' = (Inr rows, db')"
    for skip_arg limit_arg rows
  proof -
    from that have "set rows \<subseteq> set (products db')"
      by (auto simp: get_products_def Let_def split: if_splits
          dest!: in_set_takeD in_set_dropD)
    then show ?thesis
      by (auto simp: list_all_iff db'_def)
  qed
  from d gone listing show "\<exists>db'. delete_product i db = (Inr (), db') \<and>
         products db' = filter (\<lambda>r. Product.id r \<noteq> i) (products db) \<and>
         sales db' = sales db \<and> sale_items db' = sale_items db \<and>
         get_product_row db' i = None \<and>
         (\<forall>skip_arg limit_arg rows.
            get_products coll skip_arg limit_arg db' = (Inr rows, db') \<longrightarrow>
            list_all (\<lambda>r. Product.id r \<noteq> i) rows)"
    by (intro exI[of _ db']) (simp add: db'_def)
qed

subsection \<open>Partial update\<close>

lemma setattr_loop_append:
  "setattr_loop p (xs @ ys) =
     (case setattr_loop p xs of Inl e \<Rightarrow> Inl e | Inr p1 \<Rightarrow> setattr_loop p1 ys)"
  by (induction xs arbitrary: p) (auto split: sum.splits)

lemma dump_name:
  assumes "setattr_loop p (dump_field Key_name f) = Inr p1"
  shows "(case f of Unset \<Rightarrow> Product.name p1 = Product.name p
          | Given v \<Rightarrow> v = Some (Product.name p1)) \<and>
         p1\<lparr>Product.name := Product.name p\<rparr> = p"
proof (cases f)
  case Unset
  with assms show ?thesis by (simp add: dump_field_def)
next
  case (Given v)
  with assms show ?thesis by (cases v) (auto simp: dump_field_def)
qed

lemma dump_sku:
  assumes "setattr_loop p (dump_field Key_sku f) = Inr p1"
  shows "(case f of Unset \<Rightarrow> Product.sku p1 = Product.sku p
          | Given v \<Rightarrow> v = Some (Product.sku p1)) \<and>
         p1\<lparr>Product.sku := Product.sku p\<rparr> = p"
proof (cases f)
  case Unset
  with assms show ?thesis by (simp add: dump_field_def)
next
  case (Given v)
  with assms show ?thesis by (cases v) (auto simp: dump_field_def)
qed

lemma dump_unit_price_cents:
  assumes "setattr_loop p (dump_field Key_unit_price_cents f) = Inr p1"
  shows "(case f of Unset \<Rightarrow> Product.unit_price_cents p1 = Product.unit_price_cents p
          | Given v \<Rightarrow> v = Some (Product.unit_price_cents p1)) \<and>
         p1\<lparr>Product.unit_price_cents := Product.unit_price_cents p\<rparr> = p"
proof (cases f)
  case Unset
  with assms show ?thesis by (simp add: dump_field_def)
next
  case (Given v)
  with assms show ?thesis by (cases v) (auto simp: dump_field_def)
qed

lemma dump_quantity_available:
  assumes "setattr_loop p (dump_field Key_quantity_available f) = Inr p1"
  shows "(case f of Unset \<Rightarrow> Product.quantity_available p1 = Product.quantity_available p
          | Given v \<Rightarrow> Product.quantity_available p1 = v) \<and>
         p1\<lparr>Product.quantity_available := Product.quantity_available p\<rparr> = p"
  using assms by (cases f) (auto simp: dump_field_def)

lemma dump_reorder_level:
  assumes "setattr_loop p (dump_field Key_reorder_level f) = Inr p1"
  shows "(case f of Unset \<Rightarrow> Product.reorder_level p1 = Product.reorder_level p
          | Given v \<Rightarrow> Product.reorder_level p1 = v) \<and>
         p1\<lparr>Product.reorder_level := Product.reorder_level p\<rparr> = p"
  using assms by (cases f) (auto simp: dump_field_def)

lemma dump_supplier_id:
  assumes "setattr_loop p (dump_field Key_supplier_id f) = Inr p1"
  shows "(case f of Unset \<Rightarrow> Product.supplier_id p1 = Product.supplier_id p
          | Given v \<Rightarrow> Product.supplier_id p1 = v) \<and>
         p1\<lparr>Product.supplier_id := Product.supplier_id p\<rparr> = p"
  using assms by (cases f) (auto simp: dump_field_def)

lemma update_eqD:
  "p1\<lparr>Product.name := x\<rparr> = p \<Longrightarrow>
     Product.id p1 = Product.id p \<and> Product.sku p1 = Product.sku p \<and>
     Product.unit_price_cents p1 = Product.unit_price_cents p \<and>
     Product.quantity_available p1 = Product.quantity_available p \<and>
     Product.reorder_level p1 = Product.reorder_level p \<and>
     Product.supplier_id p1 = Product.supplier_id p \<and>
     Product.created_at p1 = Product.created_at p \<and>
     Product.updated_at p1 = Product.updated_at p"
  "p1\<lparr>Product.sku := y\<rparr> = p \<Longrightarrow>
     Product.id p1 = Product.id p \<and> Product.name p1 = Product.name p \<and>
     Product.unit_price_cents p1 = Product.unit_price_cents p \<and>
     Product.quantity_available p1 = Product.quantity_available p \<and>
     Product.reorder_level p1 = Product.reorder_level p \<and>
     Product.supplier_id p1 = Product.supplier_id p \<and>
     Product.created_at p1 = Product.created_at p \<and>
     Product.updated_at p1 = Product.updated_at p"
  "p1\<lparr>Product.unit_price_cents := z\<rparr> = p \<Longrightarrow>
     Product.id p1 = Product.id p \<and> Product.name p1 = Product.name p \<and>
     Product.sku p1 = Product.sku p \<and>
     Product.quantity_available p1 = Product.quantity_available p \<and>
     Product.reorder_level p1 = Product.reorder_level p \<and>
     Product.supplier_id p1 = Product.supplier_id p \<and>
     Product.created_at p1 = Product.created_at p \<and>
     Product.updated_at p1 = Product.updated_at p"
  "p1\<lparr>Product.quantity_available := a\<rparr> = p \<Longrightarrow>
     Product.id p1 = Product.id p \<and> Product.name p1 = Product.name p \<and>
     Product.sku p1 = Product.sku p \<and>
     Product.unit_price_cents p1 = Product.unit_price_cents p \<and>
     Product.reorder_level p1 = Product.reorder_level p \<and>
     Product.supplier_id p1 = Product.supplier_id p \<and>
     Product.created_at p1 = Product.created_at p \<and>
     Product.updated_at p1 = Product.updated_at p"
  "p1\<lparr>Product.reorder_level := b\<rparr> = p \<Longrightarrow>
     Product.id p1 = Product.id p \<and> Product.name p1 = Product.name p \<and>
     Product.sku p1 = Product.sku p \<and>
     Product.unit_price_cents p1 = Product.unit_price_cents p \<and>
     Product.quantity_available p1 = Product.quantity_available p \<and>
     Product.supplier_id p1 = Product.supplier_id p \<and>
     Product.created_at p1 = Product.created_at p \<and>
     Product.updated_at p1 = Product.updated_at p"
  "p1\<lparr>Product.supplier_id := c\<rparr> = p \<Longrightarrow>
     Product.id p1 = Product.id p \<and> Product.name p1 = Product.name p \<and>
     Product.sku p1 = Product.sku p \<and>
     Product.unit_price_cents p1 = Product.unit_price_cents p \<and>
     Product.quantity_available p1 = Product.quantity_available p \<and>
     Product.reorder_level p1 = Product.reorder_level p \<and>
     Product.created_at p1 = Product.created_at p \<and>
     Product.updated_at p1 = Product.updated_at p"
  by (cases p1; cases p; simp)+

lemma setattr_loop_model_dump:
  assumes "setattr_loop p (model_dump_exclude_unset u) = Inr q"
  shows
    "Product.id q = Product.id p \<and>
     Product.created_at q = Product.created_at p \<and>
     Product.updated_at q = Product.updated_at p \<and>
     (case ProductUpdate.name u of
        Unset \<Rightarrow> Product.name q = Product.name p
      | Given v \<Rightarrow> v = Some (Product.name q)) \<and>
     (case ProductUpdate.sku u of
        Unset \<Rightarrow> Product.sku q = Product.sku p
      | Given v \<Rightarrow> v = Some (Product.sku q)) \<and>
     (case ProductUpdate.unit_price_cents u of
        Unset \<Rightarrow> Product.unit_price_cents q = Product.unit_price_cents p
      | Given v \<Rightarrow> v = Some (Product.unit_price_cents q)) \<and>
     (case ProductUpdate.quantity_available u of
        Unset \<Rightarrow> Product.quantity_available q = Product.quantity_available p
      | Given v \<Rightarrow> Product.quantity_available q = v) \<and>
     (case ProductUpdate.reorder_level u of
        Unset \<Rightarrow> Product.reorder_level q = Product.reorder_level p
      | Given v \<Rightarrow> Product.reorder_level q = v) \<and>
     (case ProductUpdate.supplier_id u of
        Unset \<Rightarrow> Product.supplier_id q = Product.supplier_id p
      | Given v \<Rightarrow> Product.supplier_id q = v)"
proof -
  from assms obtain p1 p2 p3 p4 p5 where
    1: "setattr_loop p (dump_field Key_name (ProductUpdate.name u)) = Inr p1" and
    2: "setattr_loop p1 (dump_field Key_sku (ProductUpdate.sku u)) = Inr p2" and
    3: "setattr_loop p2 (dump_field Key_unit_price_cents (ProductUpdate.unit_price_cents u)) = Inr p3" and
    4: "setattr_loop p3 (dump_field Key_quantity_available (ProductUpdate.quantity_available u)) = Inr p4" and
    5: "setattr_loop p4 (dump_field Key_reorder_level (ProductUpdate.reorder_level u)) = Inr p5" and
    6: "setattr_loop p5 (dump_field Key_supplier_id (ProductUpdate.supplier_id u)) = Inr q"
    by (auto simp: model_dump_exclude_unset_def setattr_loop_append split: sum.splits)
  note a = dump_name[OF 1] and b = dump_sku[OF 2] and c = dump_unit_price_cents[OF 3]
    and d = dump_quantity_available[OF 4] and e = dump_reorder_level[OF 5]
    and f = dump_supplier_id[OF 6]
  note a' = update_eqD(1)[OF a[THEN conjunct2]] and b' = update_eqD(2)[OF b[THEN conjunct2]]
    and c' = update_eqD(3)[OF c[THEN conjunct2]] and d' = update_eqD(4)[OF d[THEN conjunct2]]
    and e' = update_eqD(5)[OF e[THEN conjunct2]] and f' = update_eqD(6)[OF f[THEN conjunct2]]
  show ?thesis
    using a[THEN conjunct1] b[THEN conjunct1] c[THEN conjunct1] d[THEN conjunct1]
      e[THEN conjunct1] f[THEN conjunct1] a' b' c' d' e' f'
    by (simp split: field.splits)
qed


lemma setattr_loop_model_dump_Inl:
  assumes "ProductUpdate.name u = Given None \<or> ProductUpdate.sku u = Given None \<or>
    ProductUpdate.unit_price_cents u = Given None"
  shows "\<exists>e. setattr_loop p (model_dump_exclude_unset u) = Inl e"
proof (cases "setattr_loop p (model_dump_exclude_unset u)")
  case (Inl e)
  then show ?thesis by blast
next
  case (Inr q)
  from setattr_loop_model_dump[OF Inr] assms show ?thesis
    by (auto split: field.splits)
qed



subsection \<open>Concrete instances\<close>

lemmas ledger_defs = ledger_def product_A_def product_B_def

lemma sales_summary_ledger:
  "get_sales_summary 10 10 ledger =
     (Inr \<lparr>from_date = 10, to_date = 10, total_revenue_cents = 4320,
           transaction_count = 2, average_order_value_cents = 2160\<rparr>, ledger) \<and>
   get_sales_summary 12 20 ledger =
     (Inr \<lparr>from_date = 12, to_date = 20, total_revenue_cents = 0,
           transaction_count = 0, average_order_value_cents = 0\<rparr>, ledger)"
  by (simp add: get_sales_summary_def datetime_combine_def time_min_def time_max_def
      ledger_def Let_def)

lemma low_stock_report_ledger:
  "get_low_stock_report None ledger = (Inr [product_A], ledger) \<and>
   get_low_stock_report (Some 40) ledger = (Inr [product_A, product_B], ledger) \<and>
   get_low_stock_report (Some 4) ledger = (Inr [], ledger)"
  by (simp add: get_low_stock_report_def ledger_defs)




theorem delete_product_cases_witness:
  "get_product_row ledger 99 = None \<and>
   delete_product 99 ledger = (Inl (HTTPException 404 ProductNotFound), ledger) \<and>
   get_product_row ledger 1 = Some product_A \<and>
   \<lparr>SaleItem.id = 1, SaleItem.sale_id = 1, SaleItem.product_id = 1,
     SaleItem.unit_price_cents = 1000, SaleItem.quantity = 3,
     SaleItem.line_total_cents = 3000\<rparr> \<in> set (sale_items ledger) \<and>
   delete_product 1 ledger = (Inl (HTTPException 400 CannotDeleteProduct), ledger) \<and>
   get_product_row ledger 2 = Some product_B \<and>
   list_all (\<lambda>it. SaleItem.product_id it \<noteq> 2) (sale_items ledger) \<and>
   (\<exists>db'. delete_product 2 ledger = (Inr (), db') \<and>
      products db' = [product_A] \<and> get_product_row db' 2 = None \<and>
      get_products (\<lambda>s. s) None None db' = (Inr [product_A], db'))"
proof -
  have a: "get_product_row ledger 99 = None"
    by (simp add: get_product_row_def ledger_defs)
  have b: "get_product_row ledger 1 = Some product_A \<and>
      \<lparr>SaleItem.id = 1, SaleItem.sale_id = 1, SaleItem.product_id = 1,
        SaleItem.unit_price_cents = 1000, SaleItem.quantity = 3,
        SaleItem.line_total_cents = 3000\<rparr> \<in> set (sale_items ledger) \<and>
      SaleItem.product_id \<lparr>SaleItem.id = 1, SaleItem.sale_id = 1, SaleItem.product_id = 1,
        SaleItem.unit_price_cents = 1000, SaleItem.quantity = 3,
        SaleItem.line_total_cents = 3000\<rparr> = 1"
    by (simp add: get_product_row_def ledger_defs)
  have c: "get_product_row ledger 2 = Some product_B \<and>
      list_all (\<lambda>it. SaleItem.product_id it \<noteq> 2) (sale_items ledger)"
    by (simp add: get_product_row_def ledger_defs)
  from delete_product_cases[of ledger 99, THEN conjunct1, rule_format, OF a]
  have 1: "delete_product 99 ledger = (Inl (HTTPException 404 ProductNotFound), ledger)" .
  from delete_product_cases[of ledger 1 product_A, THEN conjunct2, THEN conjunct1,
      rule_format, OF b]
  have 2: "delete_product 1 ledger = (Inl (HTTPException 400 CannotDeleteProduct), ledger)" .
  from delete_product_cases[of ledger 2 product_B _ "\<lambda>s. s", THEN conjunct2, THEN conjunct2,
      rule_format, OF c]
  obtain db' where d: "delete_product 2 ledger = (Inr (), db')"
    "products db' = filter (\<lambda>r. Product.id r \<noteq> 2) (products ledger)"
    "get_product_row db' 2 = None"
    by blast
  from d(2) have 3: "products db' = [product_A]"
    by (simp add: ledger_defs)
  then have 4: "get_products (\<lambda>s. s) None None db' = (Inr [product_A], db')"
    by (simp add: get_products_def)
  from a b c 1 2 d 3 4 show ?thesis by blast
qed






end
